theory Spec2Isabelle
  imports Complex_Main "HOL-Library.Product_Lexorder"
begin

section \<open>JavaScript numbers\<close>

text \<open>
  The analytics of \<^verbatim>\<open>ActivityDetail.tsx\<close> compute with JavaScript numbers, that is with
  IEEE 754 doubles. A finite double is a rational number, so finite values are modelled
  as \<^typ>\<open>rat\<close> and every multiplication and division rounds its exact result to the
  nearest double with a 53 bit significand, ties to even (\<open>fl\<close>). The exponent range is
  not bounded (no overflow to infinity, no subnormal numbers) and the sign of zero is
  not tracked. Sums, differences and products of the integer samples are exact in
  doubles below \<open>2^53\<close> and are modelled in \<^typ>\<open>int\<close>.
\<close>

function bitlen :: "int \<Rightarrow> nat" where
  "bitlen n = (if n \<le> 0 then 0 else Suc (bitlen (n div 2)))"
  by pat_completeness auto
termination
  by (relation "measure nat") auto

declare bitlen.simps [simp del]

definition pow2 :: "int \<Rightarrow> rat" where
  "pow2 e = (if 0 \<le> e then 2 ^ nat e else 1 / 2 ^ nat (- e))"

text \<open>Round to the nearest integer, ties to the even one.\<close>

definition rne :: "rat \<Rightarrow> int" where
  "rne z = (let n = \<lfloor>z\<rfloor>; f = z - of_int n in
     if f < 1 / 2 then n else if 1 / 2 < f then n + 1
     else if even n then n else n + 1)"

text \<open>The binary exponent of a positive rational: \<open>2^e \<le> x < 2^(e+1)\<close>.\<close>

definition expo :: "rat \<Rightarrow> int" where
  "expo x = (case quotient_of x of (p, q) \<Rightarrow>
     let t = int (bitlen p) - int (bitlen q)
     in if pow2 t \<le> x then t else t - 1)"

definition fl_pos :: "rat \<Rightarrow> rat" where
  "fl_pos x = (let u = pow2 (expo x - 52) in of_int (rne (x / u)) * u)"

definition fl :: "rat \<Rightarrow> rat" where
  "fl x = (if x = 0 then 0 else if 0 < x then fl_pos x else - fl_pos (- x))"

text \<open>
  \<^verbatim>\<open>Math.round\<close> of a finite number: the nearest integer, ties towards \<open>+\<infinity>\<close>.
\<close>

definition math_round :: "rat \<Rightarrow> int" where
  "math_round x = \<lfloor>x + 1 / 2\<rfloor>"

text \<open>
  A division may leave the finite numbers: \<^verbatim>\<open>0 / 0\<close> is \<^verbatim>\<open>NaN\<close> and \<^verbatim>\<open>x / 0\<close> is an
  infinity. In every arithmetic expression of the source the right operand is finite, so
  the operations take a \<^typ>\<open>rat\<close> there.
\<close>

datatype jsnum = Num rat | NaN | PosInf | NegInf

fun js_div :: "jsnum \<Rightarrow> rat \<Rightarrow> jsnum" where
  "js_div (Num a) b =
     (if b \<noteq> 0 then Num (fl (a / b))
      else if a = 0 then NaN else if 0 < a then PosInf else NegInf)"
| "js_div NaN b = NaN"
| "js_div PosInf b = (if 0 \<le> b then PosInf else NegInf)"
| "js_div NegInf b = (if 0 \<le> b then NegInf else PosInf)"

fun js_mul :: "jsnum \<Rightarrow> rat \<Rightarrow> jsnum" where
  "js_mul (Num a) b = Num (fl (a * b))"
| "js_mul NaN b = NaN"
| "js_mul PosInf b = (if b = 0 then NaN else if 0 < b then PosInf else NegInf)"
| "js_mul NegInf b = (if b = 0 then NaN else if 0 < b then NegInf else PosInf)"

fun Math_round :: "jsnum \<Rightarrow> jsnum" where
  "Math_round (Num a) = Num (of_int (math_round a))"
| "Math_round NaN = NaN"
| "Math_round PosInf = PosInf"
| "Math_round NegInf = NegInf"

text \<open>The comparison \<^verbatim>\<open>x > 0\<close>.\<close>

fun js_positive :: "jsnum \<Rightarrow> bool" where
  "js_positive (Num a) = (0 < a)"
| "js_positive NaN = False"
| "js_positive PosInf = True"
| "js_positive NegInf = False"

fun is_finite :: "jsnum \<Rightarrow> bool" where
  "is_finite (Num a) = True"
| "is_finite NaN = False"
| "is_finite PosInf = False"
| "is_finite NegInf = False"

text \<open>The doubles denoted by the literals \<^verbatim>\<open>0.6\<close>, \<^verbatim>\<open>0.7\<close>, \<^verbatim>\<open>0.8\<close> and \<^verbatim>\<open>0.9\<close>.\<close>

definition lit_0_6 :: rat where "lit_0_6 = 5404319552844595 / 9007199254740992"
definition lit_0_7 :: rat where "lit_0_7 = 3152519739159347 / 4503599627370496"
definition lit_0_8 :: rat where "lit_0_8 = 3602879701896397 / 4503599627370496"
definition lit_0_9 :: rat where "lit_0_9 = 8106479329266893 / 9007199254740992"


section \<open>Data model\<close>

text \<open>
  \<^verbatim>\<open>StreamData\<close>, \<^verbatim>\<open>StravaActivity\<close>, \<^verbatim>\<open>ActivityDetail\<close> and \<^verbatim>\<open>StravaAthlete\<close>, with
  the fields the analytics read. An optional field is an \<open>option\<close>. Heart-rate and time
  samples are integers (beats per minute, seconds). The local start date is kept as the
  calendar date that \<^verbatim>\<open>getFullYear\<close>, \<^verbatim>\<open>getMonth\<close> (counted from 0) and
  \<^verbatim>\<open>toLocaleDateString\<close> read.
\<close>

record stream_data =
  time_stream :: "int list option"
  heartrate :: "int list option"

record js_date =
  getFullYear :: int
  getMonth :: int
  getDate :: int

record strava_activity =
  act_id :: int
  act_name :: string
  act_start_date_local :: js_date
  act_type :: string
  act_distance :: rat

record activity_detail = strava_activity +
  streams :: "stream_data option"

record strava_athlete =
  birth_year :: "int option"

text \<open>
  The tests \<^verbatim>\<open>!activity?.streams?.heartrate\<close> and \<^verbatim>\<open>!athlete?.birth_year\<close>: an array is
  truthy even when empty; a number is truthy unless it is zero. The first yields the
  heart-rate samples together with the stream bundle they come from.
\<close>

definition heartrate_streams :: "activity_detail option \<Rightarrow> (int list \<times> stream_data) option" where
  "heartrate_streams activity =
     (case activity of None \<Rightarrow> None
      | Some a \<Rightarrow> (case streams a of None \<Rightarrow> None
                  | Some s \<Rightarrow> (case heartrate s of None \<Rightarrow> None
                              | Some heartRateData \<Rightarrow> Some (heartRateData, s))))"

definition birth_year_of :: "strava_athlete option \<Rightarrow> int option" where
  "birth_year_of athlete =
     (case athlete of None \<Rightarrow> None
      | Some a \<Rightarrow> (case birth_year a of None \<Rightarrow> None
                  | Some y \<Rightarrow> if y \<noteq> 0 then Some y else None))"

text \<open>\<^verbatim>\<open>activity.streams.time || []\<close>\<close>

definition time_or_empty :: "stream_data \<Rightarrow> int list" where
  "time_or_empty s = (case time_stream s of None \<Rightarrow> [] | Some t \<Rightarrow> t)"


section \<open>Heart rate zones\<close>

text \<open>
  \<^verbatim>\<open>calculateMaxHeartRate\<close>; the current year, \<^verbatim>\<open>new Date().getFullYear()\<close>, is a
  parameter.
\<close>

definition calculateMaxHeartRate :: "int \<Rightarrow> int \<Rightarrow> int" where
  "calculateMaxHeartRate currentYear birthYear =
     (let age = currentYear - birthYear in 220 - age)"

record zone =
  zone_min :: int
  zone_max :: int
  zone_name :: string
  zone_color :: string

record zones =
  zone1 :: zone
  zone2 :: zone
  zone3 :: zone
  zone4 :: zone
  zone5 :: zone

definition getHeartRateZones :: "int \<Rightarrow> zones" where
  "getHeartRateZones maxHR =
     \<lparr> zone1 = \<lparr> zone_min = 0,
                 zone_max = math_round (fl (of_int maxHR * lit_0_6)),
                 zone_name = ''Recovery (Zone 1)'', zone_color = ''#4FC3F7'' \<rparr>,
       zone2 = \<lparr> zone_min = math_round (fl (of_int maxHR * lit_0_6)),
                 zone_max = math_round (fl (of_int maxHR * lit_0_7)),
                 zone_name = ''Aerobic Base (Zone 2)'', zone_color = ''#66BB6A'' \<rparr>,
       zone3 = \<lparr> zone_min = math_round (fl (of_int maxHR * lit_0_7)),
                 zone_max = math_round (fl (of_int maxHR * lit_0_8)),
                 zone_name = ''Aerobic (Zone 3)'', zone_color = ''#FFEB3B'' \<rparr>,
       zone4 = \<lparr> zone_min = math_round (fl (of_int maxHR * lit_0_8)),
                 zone_max = math_round (fl (of_int maxHR * lit_0_9)),
                 zone_name = ''Lactate Threshold (Zone 4)'', zone_color = ''#FF9800'' \<rparr>,
       zone5 = \<lparr> zone_min = math_round (fl (of_int maxHR * lit_0_9)),
                 zone_max = maxHR,
                 zone_name = ''Neuromuscular Power (Zone 5)'', zone_color = ''#F44336'' \<rparr> \<rparr>"

text \<open>
  The time charged to the sample at \<open>index\<close>:
  \<^verbatim>\<open>index < timeData.length - 1 ? timeData[index + 1] - timeData[index] : 1\<close>.
  Both reads are in range when the test holds.
\<close>

definition timeIncrement :: "int list \<Rightarrow> nat \<Rightarrow> int" where
  "timeIncrement timeData index =
     (if int index < int (length timeData) - 1
      then timeData ! (index + 1) - timeData ! index else 1)"


section \<open>Zone time distribution\<close>

record zone_counter =
  counter_time :: int
  counter_name :: string
  counter_color :: string

record zoneDistribution =
  dist_zone1 :: zone_counter
  dist_zone2 :: zone_counter
  dist_zone3 :: zone_counter
  dist_zone4 :: zone_counter
  dist_zone5 :: zone_counter

record zone_item =
  item_zone :: string
  item_time :: jsnum
  item_percentage :: jsnum
  item_color :: string

definition add_time :: "int \<Rightarrow> zone_counter \<Rightarrow> zone_counter" where
  "add_time d c = c\<lparr> counter_time := counter_time c + d \<rparr>"

text \<open>The body of the \<^verbatim>\<open>forEach\<close> of \<^verbatim>\<open>getHeartRateZoneDistribution\<close>.\<close>

definition distribution_step ::
  "zones \<Rightarrow> int list \<Rightarrow> nat \<times> int \<Rightarrow> zoneDistribution \<Rightarrow> zoneDistribution" where
  "distribution_step zs timeData p d =
     (case p of (index, hr) \<Rightarrow>
        if hr \<noteq> 0 \<and> hr > 0 then
          (let timeIncrement = timeIncrement timeData index in
           if hr \<le> zone_max (zone1 zs) then d\<lparr> dist_zone1 := add_time timeIncrement (dist_zone1 d) \<rparr>
           else if hr \<le> zone_max (zone2 zs) then d\<lparr> dist_zone2 := add_time timeIncrement (dist_zone2 d) \<rparr>
           else if hr \<le> zone_max (zone3 zs) then d\<lparr> dist_zone3 := add_time timeIncrement (dist_zone3 d) \<rparr>
           else if hr \<le> zone_max (zone4 zs) then d\<lparr> dist_zone4 := add_time timeIncrement (dist_zone4 d) \<rparr>
           else d\<lparr> dist_zone5 := add_time timeIncrement (dist_zone5 d) \<rparr>)
        else d)"

definition initial_distribution :: "zones \<Rightarrow> zoneDistribution" where
  "initial_distribution zs =
     \<lparr> dist_zone1 = \<lparr> counter_time = 0, counter_name = zone_name (zone1 zs), counter_color = zone_color (zone1 zs) \<rparr>,
       dist_zone2 = \<lparr> counter_time = 0, counter_name = zone_name (zone2 zs), counter_color = zone_color (zone2 zs) \<rparr>,
       dist_zone3 = \<lparr> counter_time = 0, counter_name = zone_name (zone3 zs), counter_color = zone_color (zone3 zs) \<rparr>,
       dist_zone4 = \<lparr> counter_time = 0, counter_name = zone_name (zone4 zs), counter_color = zone_color (zone4 zs) \<rparr>,
       dist_zone5 = \<lparr> counter_time = 0, counter_name = zone_name (zone5 zs), counter_color = zone_color (zone5 zs) \<rparr> \<rparr>"

definition zone_times :: "zones \<Rightarrow> int list \<Rightarrow> int list \<Rightarrow> zoneDistribution" where
  "zone_times zs heartRateData timeData =
     fold (distribution_step zs timeData) (enumerate 0 heartRateData) (initial_distribution zs)"

text \<open>\<^verbatim>\<open>timeData[timeData.length - 1] || 1\<close>: \<^verbatim>\<open>undefined\<close> and \<^verbatim>\<open>0\<close> are falsy.\<close>

definition last_time_or_1 :: "int list \<Rightarrow> int" where
  "last_time_or_1 timeData =
     (if timeData = [] then 1 else if last timeData = 0 then 1 else last timeData)"

definition chart_item :: "int list \<Rightarrow> zone_counter \<Rightarrow> zone_item" where
  "chart_item timeData c =
     \<lparr> item_zone = counter_name c,
       item_time = Math_round (js_div (Num (of_int (counter_time c))) 60),
       item_percentage =
         Math_round (js_mul (js_div (Num (of_int (counter_time c)))
                                    (of_int (last_time_or_1 timeData))) 100),
       item_color = counter_color c \<rparr>"

definition entries :: "zoneDistribution \<Rightarrow> zone_counter list" where
  "entries d = [dist_zone1 d, dist_zone2 d, dist_zone3 d, dist_zone4 d, dist_zone5 d]"

definition getHeartRateZoneDistribution ::
  "int \<Rightarrow> activity_detail option \<Rightarrow> strava_athlete option \<Rightarrow> zone_item list" where
  "getHeartRateZoneDistribution currentYear activity athlete =
     (case heartrate_streams activity of None \<Rightarrow> []
      | Some (heartRateData, s) \<Rightarrow>
     (case birth_year_of athlete of None \<Rightarrow> []
      | Some birthYear \<Rightarrow>
        (let maxHR = calculateMaxHeartRate currentYear birthYear;
             zs = getHeartRateZones maxHR;
             timeData = time_or_empty s;
             zoneDistribution = zone_times zs heartRateData timeData
         in filter (\<lambda>item. js_positive (item_time item))
              (map (chart_item timeData) (entries zoneDistribution)))))"


section \<open>Relative effort\<close>

record zoneMultipliers =
  mult_zone1 :: int
  mult_zone2 :: int
  mult_zone3 :: int
  mult_zone4 :: int
  mult_zone5 :: int

definition the_zoneMultipliers :: zoneMultipliers where
  "the_zoneMultipliers =
     \<lparr> mult_zone1 = 1, mult_zone2 = 2, mult_zone3 = 3, mult_zone4 = 5, mult_zone5 = 8 \<rparr>"

text \<open>
  The body of the \<^verbatim>\<open>forEach\<close> of \<^verbatim>\<open>calculateRelativeEffortPoints\<close>, on the pair
  \<open>(totalEffortPoints, totalTimeInZones)\<close>. The loop over each candidate in
  \<^verbatim>\<open>loadComparisonData\<close> has the same body.
\<close>

definition effort_step :: "zones \<Rightarrow> int list \<Rightarrow> nat \<times> int \<Rightarrow> int \<times> int \<Rightarrow> int \<times> int" where
  "effort_step zs timeData p acc =
     (case p of (index, hr) \<Rightarrow> case acc of (totalEffortPoints, totalTimeInZones) \<Rightarrow>
        if hr \<noteq> 0 \<and> hr > 0 then
          (let timeIncrement = timeIncrement timeData index;
               totalTimeInZones = totalTimeInZones + timeIncrement in
           if hr \<le> zone_max (zone1 zs)
             then (totalEffortPoints + timeIncrement * mult_zone1 the_zoneMultipliers, totalTimeInZones)
           else if hr \<le> zone_max (zone2 zs)
             then (totalEffortPoints + timeIncrement * mult_zone2 the_zoneMultipliers, totalTimeInZones)
           else if hr \<le> zone_max (zone3 zs)
             then (totalEffortPoints + timeIncrement * mult_zone3 the_zoneMultipliers, totalTimeInZones)
           else if hr \<le> zone_max (zone4 zs)
             then (totalEffortPoints + timeIncrement * mult_zone4 the_zoneMultipliers, totalTimeInZones)
           else (totalEffortPoints + timeIncrement * mult_zone5 the_zoneMultipliers, totalTimeInZones))
        else (totalEffortPoints, totalTimeInZones))"

definition effort_totals :: "zones \<Rightarrow> int list \<Rightarrow> int list \<Rightarrow> int \<times> int" where
  "effort_totals zs heartRateData timeData =
     fold (effort_step zs timeData) (enumerate 0 heartRateData) (0, 0)"

record effort_result =
  totalPoints :: int
  relativeScore :: jsnum
  intensityFactor :: jsnum
  timeInZones :: jsnum
  res_zoneMultipliers :: zoneMultipliers

definition calculateRelativeEffortPoints ::
  "int \<Rightarrow> activity_detail option \<Rightarrow> strava_athlete option \<Rightarrow> effort_result option" where
  "calculateRelativeEffortPoints currentYear activity athlete =
     (case heartrate_streams activity of None \<Rightarrow> None
      | Some (heartRateData, s) \<Rightarrow>
     (case birth_year_of athlete of None \<Rightarrow> None
      | Some birthYear \<Rightarrow>
        (let maxHR = calculateMaxHeartRate currentYear birthYear;
             zs = getHeartRateZones maxHR;
             timeData = time_or_empty s;
             (totalEffortPoints, totalTimeInZones) = effort_totals zs heartRateData timeData;
             relativeEffortScore =
               (if totalTimeInZones > 0
                then Math_round (js_mul (js_div (Num (of_int totalEffortPoints))
                                                (of_int totalTimeInZones)) 3600)
                else Num 0);
             intensityFactor =
               (if totalTimeInZones > 0
                then js_div (js_div (Num (of_int totalEffortPoints)) (of_int totalTimeInZones)) 3
                else Num 0)
         in Some \<lparr> totalPoints = math_round (of_int totalEffortPoints),
                    relativeScore = relativeEffortScore,
                    intensityFactor = js_div (Math_round (js_mul intensityFactor 100)) 100,
                    timeInZones = Math_round (js_div (Num (of_int totalTimeInZones)) 60),
                    res_zoneMultipliers = the_zoneMultipliers \<rparr>)))"


section \<open>Cohort comparison\<close>

datatype period = Month | Year

datatype error = Error string

record comparison_entry =
  ce_id :: int
  ce_name :: string
  ce_date :: js_date
  ce_type :: string
  ce_effort :: int
  ce_distance :: jsnum
  isCurrentActivity :: bool

text \<open>\<^verbatim>\<open>name.length > 20 ? name.substring(0, 20) + '...' : name\<close>\<close>

definition short_name :: "string \<Rightarrow> string" where
  "short_name name = (if length name > 20 then take 20 name @ ''...'' else name)"

text \<open>The filter of \<^verbatim>\<open>allActivities\<close> by the comparison period.\<close>

definition in_period :: "period \<Rightarrow> activity_detail \<Rightarrow> strava_activity \<Rightarrow> bool" where
  "in_period comparisonPeriod activity act =
     (let activityDate = act_start_date_local activity;
          actDate = act_start_date_local act in
      if comparisonPeriod = Month
      then getFullYear actDate = getFullYear activityDate \<and>
           getMonth actDate = getMonth activityDate \<and>
           act_id act \<noteq> act_id activity
      else getFullYear actDate = getFullYear activityDate \<and>
           act_id act \<noteq> act_id activity)"

text \<open>
  The entry of one candidate whose detail was loaded; \<open>None\<close> when the detail has no
  heart-rate stream. The athlete's birth year was tested before the loop.
\<close>

definition candidate_entry ::
  "int \<Rightarrow> int \<Rightarrow> strava_activity \<Rightarrow> activity_detail \<Rightarrow> comparison_entry option" where
  "candidate_entry currentYear birthYear act detailedAct =
     (case heartrate_streams (Some detailedAct) of None \<Rightarrow> None
      | Some (heartRateData, s) \<Rightarrow>
        (let maxHR = calculateMaxHeartRate currentYear birthYear;
             zs = getHeartRateZones maxHR;
             timeData = time_or_empty s;
             (totalEffortPoints, totalTimeInZones) = effort_totals zs heartRateData timeData
         in Some \<lparr> ce_id = act_id act,
                    ce_name = short_name (act_name act),
                    ce_date = act_start_date_local act,
                    ce_type = act_type act,
                    ce_effort = math_round (of_int totalEffortPoints),
                    ce_distance = js_div (Num (act_distance act)) 1000,
                    isCurrentActivity = False \<rparr>))"

text \<open>
  The loop over the filtered activities: \<^verbatim>\<open>getActivityDetail\<close> is a parameter that
  returns the detail of an activity or fails, as a function of the identifier; a failure
  is caught and the candidate skipped.
\<close>

fun candidates ::
  "int \<Rightarrow> int \<Rightarrow> (int \<Rightarrow> error + activity_detail) \<Rightarrow> strava_activity list \<Rightarrow> comparison_entry list" where
  "candidates currentYear birthYear getActivityDetail [] = []"
| "candidates currentYear birthYear getActivityDetail (act # rest) =
     (case getActivityDetail (act_id act) of
        Inl e \<Rightarrow> candidates currentYear birthYear getActivityDetail rest
      | Inr detailedAct \<Rightarrow>
          (case candidate_entry currentYear birthYear act detailedAct of
             None \<Rightarrow> candidates currentYear birthYear getActivityDetail rest
           | Some entry \<Rightarrow> entry # candidates currentYear birthYear getActivityDetail rest))"

text \<open>
  The field \<^verbatim>\<open>date\<close> of an entry is \<^verbatim>\<open>toLocaleDateString()\<close> of the local start date, a
  string in the default locale; the entry keeps the calendar date that the string is
  formed from. The comparator of the sort reads the string back:
  \<^verbatim>\<open>new Date(a.date).getTime() - new Date(b.date).getTime()\<close>. What the string parses to
  depends on the locale, so the time value of \<^verbatim>\<open>new Date(d.toLocaleDateString())\<close> is a
  parameter, \<open>localeTime\<close>: \<open>None\<close> stands for \<^verbatim>\<open>Invalid Date\<close>, whose time value is
  \<^verbatim>\<open>NaN\<close>. A difference with \<^verbatim>\<open>NaN\<close> is \<^verbatim>\<open>NaN\<close>.
\<close>

definition comparefn ::
  "(js_date \<Rightarrow> int option) \<Rightarrow> comparison_entry \<Rightarrow> comparison_entry \<Rightarrow> int option" where
  "comparefn localeTime a b =
     (case localeTime (ce_date a) of None \<Rightarrow> None
      | Some ta \<Rightarrow> (case localeTime (ce_date b) of None \<Rightarrow> None
                   | Some tb \<Rightarrow> Some (ta - tb)))"

text \<open>
  \<^verbatim>\<open>Array.prototype.sort\<close> with a comparator: a result \<^verbatim>\<open>NaN\<close> of the comparator counts
  as \<open>0\<close>, and the sort is stable. It is modelled as an insertion sort. Every stable sort
  gives the same list when the comparator is consistent, which it is when all time
  values are valid and when all are invalid; when only some are invalid the order of the
  source is left to the implementation, and nothing below relies on it.
\<close>

definition SortCompare :: "('a \<Rightarrow> 'a \<Rightarrow> int option) \<Rightarrow> 'a \<Rightarrow> 'a \<Rightarrow> int" where
  "SortCompare cmp x y = (case cmp x y of None \<Rightarrow> 0 | Some v \<Rightarrow> v)"

fun insert_sorted :: "('a \<Rightarrow> 'a \<Rightarrow> int option) \<Rightarrow> 'a \<Rightarrow> 'a list \<Rightarrow> 'a list" where
  "insert_sorted cmp x [] = [x]"
| "insert_sorted cmp x (y # ys) =
     (if SortCompare cmp x y \<le> 0 then x # y # ys else y # insert_sorted cmp x ys)"

definition array_sort :: "('a \<Rightarrow> 'a \<Rightarrow> int option) \<Rightarrow> 'a list \<Rightarrow> 'a list" where
  "array_sort cmp xs = foldr (insert_sorted cmp) xs []"

text \<open>
  \<^verbatim>\<open>loadComparisonData\<close>: the new value of \<^verbatim>\<open>comparisonData\<close>, or \<open>None\<close> when the
  function returns before setting it.
\<close>

definition loadComparisonData ::
  "int \<Rightarrow> (js_date \<Rightarrow> int option) \<Rightarrow> period \<Rightarrow> activity_detail option \<Rightarrow>
   strava_athlete option \<Rightarrow> strava_activity list \<Rightarrow> (int \<Rightarrow> error + activity_detail) \<Rightarrow>
   comparison_entry list option" where
  "loadComparisonData currentYear localeTime comparisonPeriod activity athlete allActivities
     getActivityDetail =
     (case activity of None \<Rightarrow> None
      | Some act0 \<Rightarrow>
     (case birth_year_of athlete of None \<Rightarrow> None
      | Some birthYear \<Rightarrow>
        (let filteredActivities = filter (in_period comparisonPeriod act0) allActivities;
             comparisonResults = candidates currentYear birthYear getActivityDetail filteredActivities;
             currentEffort = calculateRelativeEffortPoints currentYear activity athlete;
             comparisonResults =
               (case currentEffort of None \<Rightarrow> comparisonResults
                | Some eff \<Rightarrow> comparisonResults @
                    [\<lparr> ce_id = act_id act0,
                       ce_name = short_name (act_name act0),
                       ce_date = act_start_date_local act0,
                       ce_type = act_type act0,
                       ce_effort = totalPoints eff,
                       ce_distance = js_div (Num (act_distance act0)) 1000,
                       isCurrentActivity = True \<rparr>])
         in Some (array_sort (comparefn localeTime) comparisonResults))))"

text \<open>\<^verbatim>\<open>Array.prototype.findIndex\<close>: the first index that satisfies the test, or \<open>-1\<close>.\<close>

fun findIndex :: "('a \<Rightarrow> bool) \<Rightarrow> 'a list \<Rightarrow> int" where
  "findIndex P [] = - 1"
| "findIndex P (x # xs) =
     (if P x then 0 else (let r = findIndex P xs in if r < 0 then - 1 else r + 1))"

record position =
  pos_rank :: int
  pos_total :: int
  pos_percentile :: jsnum

text \<open>The computation of the text after \<^verbatim>\<open>Your Position:\<close>.\<close>

definition yourPosition :: "comparison_entry list \<Rightarrow> position" where
  "yourPosition comparisonData =
     (let currentIndex = findIndex isCurrentActivity comparisonData;
          rank = currentIndex + 1;
          total = int (length comparisonData);
          percentile = Math_round (js_mul (js_div (Num (of_int (total - rank))) (of_int (total - 1))) 100)
      in \<lparr> pos_rank = rank, pos_total = total, pos_percentile = percentile \<rparr>)"

text \<open>
  The position is rendered under the test \<^verbatim>\<open>comparisonData.length > 0\<close>; otherwise the
  text \<^verbatim>\<open>No other activities with heart rate data found for comparison\<close> is shown
  (\<open>None\<close>).
\<close>

definition renderPosition :: "comparison_entry list \<Rightarrow> position option" where
  "renderPosition comparisonData =
     (if length comparisonData > 0 then Some (yourPosition comparisonData) else None)"


section \<open>Bulk stream backfill\<close>

text \<open>
  \<^verbatim>\<open>fetchAllStreamData\<close> of \<^verbatim>\<open>Activities.tsx\<close>. Its effects are recorded in a log, in the
  order in which they happen: the state setters, the calls of
  \<^verbatim>\<open>stravaService.getActivityDetail\<close>, the delay, the console message and the final alert
  (whether it reports no error, and the two counts of its message). Whether a fetch
  succeeds is a function of the identifier of the activity.
\<close>

datatype event =
    SetLoadingStreams bool
  | SetError "string option"
  | SetStreamProgress nat nat
  | GetActivityDetail int
  | Delay nat
  | ConsoleError int
  | Alert bool nat nat

record fetch_state =
  successCount :: nat
  errorCount :: nat
  log :: "event list"

definition emit :: "event \<Rightarrow> fetch_state \<Rightarrow> fetch_state" where
  "emit e st = st\<lparr> log := log st @ [e] \<rparr>"

function fetch_loop ::
  "(int \<Rightarrow> error + activity_detail) \<Rightarrow> strava_activity list \<Rightarrow> nat \<Rightarrow> fetch_state \<Rightarrow> fetch_state" where
  "fetch_loop getActivityDetail activitiesToProcess i st =
     (if i < length activitiesToProcess then
        (let activity = activitiesToProcess ! i;
             st = emit (SetStreamProgress (i + 1) (length activitiesToProcess)) st;
             st = emit (GetActivityDetail (act_id activity)) st
         in case getActivityDetail (act_id activity) of
              Inr detail \<Rightarrow>
                (let st = st\<lparr> successCount := successCount st + 1 \<rparr>;
                     st = (if int i < int (length activitiesToProcess) - 1
                           then emit (Delay 200) st else st)
                 in fetch_loop getActivityDetail activitiesToProcess (i + 1) st)
            | Inl e \<Rightarrow>
                (let st = emit (ConsoleError (act_id activity)) st;
                     st = st\<lparr> errorCount := errorCount st + 1 \<rparr>
                 in fetch_loop getActivityDetail activitiesToProcess (i + 1) st))
      else st)"
  by pat_completeness auto
termination
  by (relation "measure (\<lambda>(g, acts, i, st). length acts - i)") auto

declare fetch_loop.simps [simp del]

text \<open>
  \<open>None\<close> when the guard \<^verbatim>\<open>!isAuthenticated || loadingStreams\<close> returns at once. The
  outer \<^verbatim>\<open>catch\<close> is not reached: every failure of a fetch is caught inside the loop.
\<close>

definition fetchAllStreamData ::
  "bool \<Rightarrow> bool \<Rightarrow> strava_activity list \<Rightarrow> strava_activity list \<Rightarrow>
   (int \<Rightarrow> error + activity_detail) \<Rightarrow> fetch_state option" where
  "fetchAllStreamData isAuthenticated loadingStreams filteredActivities activities getActivityDetail =
     (if \<not> isAuthenticated \<or> loadingStreams then None
      else
        (let st = \<lparr> successCount = 0, errorCount = 0, log = [] \<rparr>;
             st = emit (SetLoadingStreams True) st;
             st = emit (SetError None) st;
             activitiesToProcess =
               (if length filteredActivities > 0 then filteredActivities else activities);
             st = emit (SetStreamProgress 0 (length activitiesToProcess)) st;
             st = fetch_loop getActivityDetail activitiesToProcess 0 st;
             st = emit (Alert (errorCount st = 0) (successCount st) (errorCount st)) st;
             st = emit (SetLoadingStreams False) st;
             st = emit (SetStreamProgress 0 0) st
         in Some st))"

fun is_progress :: "event \<Rightarrow> bool" where
  "is_progress (SetStreamProgress c t) = True"
| "is_progress e = False"

fun is_fetch :: "event \<Rightarrow> bool" where
  "is_fetch (GetActivityDetail a) = True"
| "is_fetch e = False"


section \<open>Notions used in the statements\<close>

text \<open>The number of the zone that the chain of comparisons of both loops selects.\<close>

definition zone_of :: "zones \<Rightarrow> int \<Rightarrow> nat" where
  "zone_of zs hr =
     (if hr \<le> zone_max (zone1 zs) then 1
      else if hr \<le> zone_max (zone2 zs) then 2
      else if hr \<le> zone_max (zone3 zs) then 3
      else if hr \<le> zone_max (zone4 zs) then 4
      else 5)"

text \<open>The upper bound, the multiplier and the counter of the zone with a given number.\<close>

definition upper_bound :: "zones \<Rightarrow> nat \<Rightarrow> int" where
  "upper_bound zs k =
     (if k = 1 then zone_max (zone1 zs) else if k = 2 then zone_max (zone2 zs)
      else if k = 3 then zone_max (zone3 zs) else if k = 4 then zone_max (zone4 zs)
      else zone_max (zone5 zs))"

definition lower_bound :: "zones \<Rightarrow> nat \<Rightarrow> int" where
  "lower_bound zs k =
     (if k = 1 then zone_min (zone1 zs) else if k = 2 then zone_min (zone2 zs)
      else if k = 3 then zone_min (zone3 zs) else if k = 4 then zone_min (zone4 zs)
      else zone_min (zone5 zs))"

definition nth_zone :: "zones \<Rightarrow> nat \<Rightarrow> zone" where
  "nth_zone zs k =
     (if k = 1 then zone1 zs else if k = 2 then zone2 zs
      else if k = 3 then zone3 zs else if k = 4 then zone4 zs
      else zone5 zs)"

definition multiplier :: "nat \<Rightarrow> int" where
  "multiplier k =
     (if k = 1 then mult_zone1 the_zoneMultipliers else if k = 2 then mult_zone2 the_zoneMultipliers
      else if k = 3 then mult_zone3 the_zoneMultipliers else if k = 4 then mult_zone4 the_zoneMultipliers
      else mult_zone5 the_zoneMultipliers)"

definition counter :: "zoneDistribution \<Rightarrow> nat \<Rightarrow> zone_counter" where
  "counter d k =
     (if k = 1 then dist_zone1 d else if k = 2 then dist_zone2 d
      else if k = 3 then dist_zone3 d else if k = 4 then dist_zone4 d
      else dist_zone5 d)"

text \<open>
  The seconds that the samples of zone \<open>k\<close> are charged, and the weighted and the plain
  sum of the charges of all classified samples, as sums over the indices.
\<close>

definition zone_seconds :: "zones \<Rightarrow> int list \<Rightarrow> int list \<Rightarrow> nat \<Rightarrow> int" where
  "zone_seconds zs heartRateData timeData k =
     (\<Sum>i<length heartRateData.
        if 0 < heartRateData ! i \<and> zone_of zs (heartRateData ! i) = k
        then timeIncrement timeData i else 0)"

definition weighted_seconds :: "zones \<Rightarrow> int list \<Rightarrow> int list \<Rightarrow> int" where
  "weighted_seconds zs heartRateData timeData =
     (\<Sum>i<length heartRateData.
        if 0 < heartRateData ! i
        then timeIncrement timeData i * multiplier (zone_of zs (heartRateData ! i)) else 0)"

definition classified_seconds :: "int list \<Rightarrow> int list \<Rightarrow> int" where
  "classified_seconds heartRateData timeData =
     (\<Sum>i<length heartRateData.
        if 0 < heartRateData ! i then timeIncrement timeData i else 0)"




text \<open>
  The charge that the specification describes: the difference to the next time value, and
  one second for the final heart-rate sample.
\<close>

definition spec_charge :: "int list \<Rightarrow> int list \<Rightarrow> nat \<Rightarrow> int" where
  "spec_charge heartRateData timeData i =
     (if i + 1 < length heartRateData then timeData ! (i + 1) - timeData ! i else 1)"

text \<open>
  The percentage that the specification describes: the share of the total classified
  time.
\<close>

definition spec_percentage :: "int \<Rightarrow> int \<Rightarrow> jsnum" where
  "spec_percentage zoneSeconds totalClassifiedSeconds =
     Math_round (js_mul (js_div (Num (of_int zoneSeconds)) (of_int totalClassifiedSeconds)) 100)"

text \<open>
  The events of one round of the loop of \<^verbatim>\<open>fetchAllStreamData\<close>, for the item at index
  \<open>i\<close> of \<open>n\<close> items.
\<close>

definition item_events ::
  "(int \<Rightarrow> error + activity_detail) \<Rightarrow> nat \<Rightarrow> nat \<times> strava_activity \<Rightarrow> event list" where
  "item_events getActivityDetail n p =
     (case p of (i, activity) \<Rightarrow>
        [SetStreamProgress (i + 1) n, GetActivityDetail (act_id activity)] @
        (case getActivityDetail (act_id activity) of
           Inr detail \<Rightarrow> (if int i < int n - 1 then [Delay 200] else [])
         | Inl e \<Rightarrow> [ConsoleError (act_id activity)]))"

text \<open>
  The score and the intensity factor that the specification describes, without a test of
  the total classified time.
\<close>

definition spec_relativeScore :: "int \<Rightarrow> int \<Rightarrow> jsnum" where
  "spec_relativeScore totalEffortPoints totalClassifiedSeconds =
     Math_round (js_mul (js_div (Num (of_int totalEffortPoints)) (of_int totalClassifiedSeconds)) 3600)"

definition spec_intensityFactor :: "int \<Rightarrow> int \<Rightarrow> jsnum" where
  "spec_intensityFactor totalEffortPoints totalClassifiedSeconds =
     js_div (Math_round (js_mul (js_div (js_div (Num (of_int totalEffortPoints))
                                                 (of_int totalClassifiedSeconds)) 3) 100)) 100"


section \<open>Example inputs\<close>

definition example_athlete :: strava_athlete where
  "example_athlete = \<lparr> birth_year = Some 1990 \<rparr>"

definition example_activity :: "int \<Rightarrow> int \<Rightarrow> int list option \<Rightarrow> int list \<Rightarrow> activity_detail" where
  "example_activity i day t h =
     \<lparr> act_id = i, act_name = ''Morning Run'',
       act_start_date_local = \<lparr> getFullYear = 2025, getMonth = 5, getDate = day \<rparr>,
       act_type = ''Run'', act_distance = 5000,
       streams = Some \<lparr> time_stream = t, heartrate = Some h \<rparr> \<rparr>"

definition example_cached :: "int \<Rightarrow> int \<Rightarrow> strava_activity" where
  "example_cached i day =
     \<lparr> act_id = i, act_name = ''Morning Run'',
       act_start_date_local = \<lparr> getFullYear = 2025, getMonth = 5, getDate = day \<rparr>,
       act_type = ''Run'', act_distance = 5000 \<rparr>"




text \<open>A detail fetcher that fails for every activity.\<close>

definition no_detail :: "int \<Rightarrow> error + activity_detail" where
  "no_detail i = Inl (Error ''Failed to fetch activity detail'')"



text \<open>A detail fetcher that fails for the activity 3 only.\<close>

definition fails_on_3 :: "int \<Rightarrow> error + activity_detail" where
  "fails_on_3 i =
     (if i = 3 then Inl (Error ''Failed to fetch activity detail'')
      else Inr (example_activity i 1 None []))"

definition five_activities :: "strava_activity list" where
  "five_activities =
     [example_cached 1 1, example_cached 2 2, example_cached 3 3, example_cached 4 4,
      example_cached 5 5]"


section \<open>Rounding to the nearest double\<close>

lemma bitlen_bounds:
  "0 < n \<Longrightarrow> 2 ^ (bitlen n - 1) \<le> n \<and> n < 2 ^ bitlen n"
proof (induction n rule: bitlen.induct)
  case (1 n)
  show ?case
  proof (cases "n = 1")
    case True
    then show ?thesis by (simp add: bitlen.simps[of 1] bitlen.simps[of 0])
  next
    case False
    with "1.prems" have h: "0 < n div 2" by simp
    with "1.IH" "1.prems" have ih: "2 ^ (bitlen (n div 2) - 1) \<le> n div 2" "n div 2 < 2 ^ bitlen (n div 2)"
      by auto
    from h have pos: "0 < bitlen (n div 2)" by (simp add: bitlen.simps[of "n div 2"])
    have bl: "bitlen n = Suc (bitlen (n div 2))" using "1.prems" by (simp add: bitlen.simps[of n])
    from pos obtain k where k: "bitlen (n div 2) = Suc k" by (cases "bitlen (n div 2)") auto
    have "2 ^ (bitlen n - 1) = (2::int) * 2 ^ k" using bl k by simp
    also have "\<dots> \<le> 2 * (n div 2)" using ih(1) k by simp
    also have "\<dots> \<le> n" by simp
    finally have lo: "2 ^ (bitlen n - 1) \<le> n" .
    have "n < 2 * (n div 2 + 1)" by presburger
    also have "\<dots> \<le> 2 * 2 ^ bitlen (n div 2)" using ih(2) by simp
    finally have "n < 2 ^ bitlen n" using bl by simp
    with lo show ?thesis by simp
  qed
qed

lemma pow2_pos [simp]: "0 < pow2 e"
  by (simp add: pow2_def)

lemma pow2_add: "pow2 (a + b) = pow2 a * pow2 b"
proof -
  have "pow2 e = 2 powi e" for e
    unfolding pow2_def power_int_def by (simp only: power_inverse inverse_eq_divide power_one_over)
  then show ?thesis by (simp add: power_int_add)
qed

lemma pow2_nat: "pow2 (int n) = 2 ^ n"
  by (simp add: pow2_def)

lemma pow2_mono: "a \<le> b \<Longrightarrow> pow2 a \<le> pow2 b"
proof -
  assume "a \<le> b"
  then obtain n where b: "b = a + int n" by (metis zle_iff_zadd)
  have "(1::rat) \<le> 2 ^ n" by simp
  then show ?thesis unfolding b pow2_add pow2_nat
    by (metis less_eq_rat_def mult.right_neutral mult_left_mono pow2_pos)
qed

lemma pow2_less_cancel: "pow2 a < pow2 b \<Longrightarrow> a < b"
  using pow2_mono[of b a] by (cases "a < b") auto

lemma expo_bounds:
  assumes "0 < x"
  shows "pow2 (expo x) \<le> x" and "x < pow2 (expo x + 1)"
proof -
  obtain p q where pq: "quotient_of x = (p, q)" by (cases "quotient_of x")
  then have q: "0 < q" using quotient_of_denom_pos by blast
  have x: "x = of_int p / of_int q" using pq by (simp add: quotient_of_div)
  with assms q have p: "0 < p" by (simp add: zero_less_divide_iff)
  define t where "t = int (bitlen p) - int (bitlen q)"
  have e: "expo x = (if pow2 t \<le> x then t else t - 1)"
    by (simp add: expo_def pq t_def Let_def)
  from bitlen_bounds[OF p] have bp: "(2::rat) ^ (bitlen p - 1) \<le> of_int p" "of_int p < (2::rat) ^ bitlen p"
    by (metis of_int_le_iff of_int_numeral of_int_power, metis of_int_less_iff of_int_numeral of_int_power)
  from bitlen_bounds[OF q] have bq: "(2::rat) ^ (bitlen q - 1) \<le> of_int q" "of_int q < (2::rat) ^ bitlen q"
    by (metis of_int_le_iff of_int_numeral of_int_power, metis of_int_less_iff of_int_numeral of_int_power)
  have blp: "0 < bitlen p" using p by (simp add: bitlen.simps[of p])
  have blq: "0 < bitlen q" using q by (simp add: bitlen.simps[of q])
  have qr: "(0::rat) < of_int q" using q by simp
  have "pow2 (t - 1) * of_int q < pow2 (t - 1) * 2 ^ bitlen q"
    using bq(2) by simp
  also have "\<dots> = pow2 (t - 1 + int (bitlen q))" by (simp add: pow2_add pow2_nat)
  also have "t - 1 + int (bitlen q) = int (bitlen p - 1)" using blp by (simp add: t_def)
  also have "pow2 (int (bitlen p - 1)) \<le> of_int p" using bp(1) by (simp add: pow2_nat)
  finally have lo: "pow2 (t - 1) < x" using qr by (simp add: x pos_less_divide_eq)
  have "of_int p < pow2 (int (bitlen p))" using bp(2) by (simp add: pow2_nat)
  also have "int (bitlen p) = (t + 1) + int (bitlen q - 1)" using blq by (simp add: t_def)
  also have "pow2 (t + 1 + int (bitlen q - 1)) = pow2 (t + 1) * 2 ^ (bitlen q - 1)"
    by (simp add: pow2_add pow2_nat)
  also have "\<dots> \<le> pow2 (t + 1) * of_int q" using bq(1) by simp
  finally have hi: "x < pow2 (t + 1)" using qr by (simp add: x pos_divide_less_eq)
  show "pow2 (expo x) \<le> x" using lo by (simp add: e)
  show "x < pow2 (expo x + 1)" using hi by (auto simp add: e not_le)
qed

lemma expo_ge: "0 < x \<Longrightarrow> pow2 k \<le> x \<Longrightarrow> k \<le> expo x"
  using expo_bounds(2)[of x] pow2_less_cancel[of k "expo x + 1"] by force

lemma rne_ge_floor: "\<lfloor>z\<rfloor> \<le> rne z"
  by (simp add: rne_def Let_def)

lemma rne_error: "\<bar>of_int (rne z) - z\<bar> \<le> 1 / 2"
proof -
  have "of_int \<lfloor>z\<rfloor> \<le> z" "z < of_int \<lfloor>z\<rfloor> + 1" by linarith+
  then show ?thesis by (auto simp add: rne_def Let_def)
qed

lemma fl_pos_error:
  assumes "0 < x"
  shows "\<bar>fl_pos x - x\<bar> \<le> x / 2 ^ 53"
proof -
  define u where "u = pow2 (expo x - 52)"
  have u: "0 < u" by (simp add: u_def)
  have "fl_pos x - x = (of_int (rne (x / u)) - x / u) * u"
    using u by (simp add: fl_pos_def Let_def u_def[symmetric] left_diff_distrib)
  then have "\<bar>fl_pos x - x\<bar> = \<bar>of_int (rne (x / u)) - x / u\<bar> * u"
    using u by (simp add: abs_mult)
  also have "\<dots> \<le> 1 / 2 * u" using rne_error[of "x / u"] u by (simp add: mult_right_mono)
  also have "\<dots> = pow2 (expo x) / 2 ^ 53"
  proof -
    have "pow2 (expo x) = pow2 (expo x - 52 + 52)" by simp
    also have "\<dots> = u * 2 ^ 52" unfolding pow2_add u_def by (simp add: pow2_def)
    finally show ?thesis by simp
  qed
  also have "\<dots> \<le> x / 2 ^ 53" using expo_bounds(1)[OF assms] by (simp add: divide_right_mono)
  finally show ?thesis .
qed

lemma fl_error: "\<bar>fl x - x\<bar> \<le> \<bar>x\<bar> / 2 ^ 53"
proof -
  consider "x = 0" | "0 < x" | "x < 0" by linarith
  then show ?thesis
  proof cases
    case 1 then show ?thesis by (simp add: fl_def)
  next
    case 2 then show ?thesis using fl_pos_error[of x] by (simp add: fl_def)
  next
    case 3
    then have "\<bar>fl_pos (- x) - (- x)\<bar> \<le> (- x) / 2 ^ 53" using fl_pos_error[of "- x"] by simp
    with 3 show ?thesis by (simp add: fl_def abs_if split: if_splits)
  qed
qed

lemma fl_ge_pow2:
  assumes "pow2 k \<le> x"
  shows "pow2 k \<le> fl x"
proof -
  have x: "0 < x" using assms pow2_pos[of k] by linarith
  define u where "u = pow2 (expo x - 52)"
  have u: "0 < u" by (simp add: u_def)
  have pe: "pow2 (expo x) = u * 2 ^ 52"
  proof -
    have "pow2 (expo x) = pow2 (expo x - 52 + 52)" by simp
    also have "\<dots> = u * 2 ^ 52" unfolding pow2_add u_def by (simp add: pow2_def)
    finally show ?thesis .
  qed
  have "(2::rat) ^ 52 \<le> x / u" using expo_bounds(1)[OF x] u by (simp add: pe pos_le_divide_eq mult.commute)
  then have "(2::int) ^ 52 \<le> \<lfloor>x / u\<rfloor>" by (simp add: le_floor_iff)
  then have "(2::int) ^ 52 \<le> rne (x / u)" using rne_ge_floor[of "x / u"] by linarith
  then have "(2::rat) ^ 52 \<le> of_int (rne (x / u))"
    by (metis of_int_le_iff of_int_numeral of_int_power)
  then have "2 ^ 52 * u \<le> of_int (rne (x / u)) * u" using u by (simp add: mult_right_mono)
  then have "pow2 (expo x) \<le> fl x" using x by (simp add: fl_def fl_pos_def Let_def u_def[symmetric] pe mult.commute)
  moreover have "pow2 k \<le> pow2 (expo x)" using expo_ge[OF x assms] by (rule pow2_mono)
  ultimately show ?thesis by linarith
qed


section \<open>Availability of the relative effort\<close>

text \<open>
  Claim C8. \<^verbatim>\<open>calculateRelativeEffortPoints\<close> returns \<^verbatim>\<open>null\<close> (\<open>None\<close>) exactly when the
  heart-rate stream is absent or the birth year is absent, where a birth year of \<open>0\<close>
  counts as absent (it is falsy). So the result is non-null whenever both are present, be
  there a positive sample or not. The result is a value of an option type: nothing is
  raised.
\<close>

theorem relativeEffort_null_iff:
  "(calculateRelativeEffortPoints currentYear activity athlete = None) =
   ((\<nexists>a s h. activity = Some a \<and> streams a = Some s \<and> heartrate s = Some h) \<or>
    (\<nexists>a y. athlete = Some a \<and> birth_year a = Some y \<and> y \<noteq> 0))"
  by (auto simp add: calculateRelativeEffortPoints_def heartrate_streams_def birth_year_of_def
        Let_def split: option.splits prod.splits if_splits)

theorem relativeEffort_null_iff_witness:
  "calculateRelativeEffortPoints 2025 None (Some example_athlete) = None \<and>
   calculateRelativeEffortPoints 2025 (Some (example_activity 1 3 None [100])) None = None \<and>
   calculateRelativeEffortPoints 2025
     (Some (example_activity 1 3 (Some [0, 30, 60]) [100, 160, 100])) (Some example_athlete) \<noteq> None"
  using relativeEffort_null_iff [of 2025 None "Some example_athlete"]
    relativeEffort_null_iff [of 2025 "Some (example_activity 1 3 None [100])" None]
    relativeEffort_null_iff [of 2025
      "Some (example_activity 1 3 (Some [0, 30, 60]) [100, 160, 100])" "Some example_athlete"]
  by (simp add: example_athlete_def example_activity_def)


section \<open>Zone thresholds\<close>

lemma fl_zero [simp]: "fl 0 = 0"
  by (simp add: fl_def)

lemma fl_le_fl:
  assumes "0 \<le> x" and "x * (1 + 1 / 2 ^ 53) \<le> y * (1 - 1 / 2 ^ 53)"
  shows "fl x \<le> fl y"
proof -
  have a: "(0::rat) \<le> 1 + 1 / 2 ^ 53" by simp
  have b: "(0::rat) < 1 - 1 / 2 ^ 53" by simp
  have "0 \<le> x * (1 + 1 / 2 ^ 53)" using assms(1) a by (rule mult_nonneg_nonneg)
  then have "0 \<le> y * (1 - 1 / 2 ^ 53)" using assms(2) by linarith
  then have y: "0 \<le> y" using b zero_le_mult_iff[of y "1 - 1 / 2 ^ 53"] by linarith
  have "fl x \<le> x + x / 2 ^ 53" using fl_error[of x] assms(1) by linarith
  also have "\<dots> = x * (1 + 1 / 2 ^ 53)" by (simp add: algebra_simps)
  also have "\<dots> \<le> y * (1 - 1 / 2 ^ 53)" by (rule assms(2))
  also have "\<dots> = y - y / 2 ^ 53" by (simp add: algebra_simps)
  also have "\<dots> \<le> fl y" using fl_error[of y] y by linarith
  finally show ?thesis .
qed

lemma fl_scaled_mono:
  assumes "0 \<le> m" and "0 \<le> c" and "c * (1 + 1 / 2 ^ 53) \<le> d * (1 - 1 / 2 ^ 53)"
  shows "fl (m * c) \<le> fl (m * d)"
proof (rule fl_le_fl)
  show "0 \<le> m * c" using assms by simp
  have "m * (c * (1 + 1 / 2 ^ 53)) \<le> m * (d * (1 - 1 / 2 ^ 53))"
    using assms(1,3) by (rule mult_left_mono[rotated])
  then show "m * c * (1 + 1 / 2 ^ 53) \<le> m * d * (1 - 1 / 2 ^ 53)"
    by (simp only: mult.assoc)
qed

lemma math_round_mono: "x \<le> y \<Longrightarrow> math_round x \<le> math_round y"
  by (simp add: math_round_def floor_mono)

lemma math_round_of_int [simp]: "math_round (of_int n) = n"
  by (simp add: math_round_def) linarith

lemma math_round_error: "\<bar>of_int (math_round x) - x\<bar> \<le> 1 / 2"
proof -
  have "of_int \<lfloor>x + 1 / 2\<rfloor> \<le> x + 1 / 2" "x + 1 / 2 < of_int \<lfloor>x + 1 / 2\<rfloor> + 1" by linarith+
  then show ?thesis unfolding math_round_def by linarith
qed

lemma thresholds_mono:
  assumes "0 \<le> (maxHR::int)"
  shows "0 \<le> math_round (fl (of_int maxHR * lit_0_6))"
    and "math_round (fl (of_int maxHR * lit_0_6)) \<le> math_round (fl (of_int maxHR * lit_0_7))"
    and "math_round (fl (of_int maxHR * lit_0_7)) \<le> math_round (fl (of_int maxHR * lit_0_8))"
    and "math_round (fl (of_int maxHR * lit_0_8)) \<le> math_round (fl (of_int maxHR * lit_0_9))"
    and "math_round (fl (of_int maxHR * lit_0_9)) \<le> maxHR"
proof -
  have m: "(0::rat) \<le> of_int maxHR" using assms by simp
  have "fl (of_int maxHR * 0) \<le> fl (of_int maxHR * lit_0_6)"
    by (rule fl_scaled_mono[OF m]) (simp_all add: lit_0_6_def)
  then have "math_round 0 \<le> math_round (fl (of_int maxHR * lit_0_6))"
    by (simp add: math_round_mono)
  then show "0 \<le> math_round (fl (of_int maxHR * lit_0_6))"
    using math_round_of_int[of 0] by simp
  have "fl (of_int maxHR * lit_0_6) \<le> fl (of_int maxHR * lit_0_7)"
    by (rule fl_scaled_mono[OF m]) (simp_all add: lit_0_6_def lit_0_7_def)
  then show "math_round (fl (of_int maxHR * lit_0_6)) \<le> math_round (fl (of_int maxHR * lit_0_7))"
    by (rule math_round_mono)
  have "fl (of_int maxHR * lit_0_7) \<le> fl (of_int maxHR * lit_0_8)"
    by (rule fl_scaled_mono[OF m]) (simp_all add: lit_0_7_def lit_0_8_def)
  then show "math_round (fl (of_int maxHR * lit_0_7)) \<le> math_round (fl (of_int maxHR * lit_0_8))"
    by (rule math_round_mono)
  have "fl (of_int maxHR * lit_0_8) \<le> fl (of_int maxHR * lit_0_9)"
    by (rule fl_scaled_mono[OF m]) (simp_all add: lit_0_8_def lit_0_9_def)
  then show "math_round (fl (of_int maxHR * lit_0_8)) \<le> math_round (fl (of_int maxHR * lit_0_9))"
    by (rule math_round_mono)
  have "(0::rat) \<le> lit_0_9" by (simp add: lit_0_9_def)
  with m have "0 \<le> of_int maxHR * lit_0_9" by simp
  then have "fl (of_int maxHR * lit_0_9) \<le> of_int maxHR * lit_0_9 + of_int maxHR * lit_0_9 / 2 ^ 53"
    using fl_error[of "of_int maxHR * lit_0_9"] by linarith
  also have "\<dots> = of_int maxHR * (lit_0_9 * (1 + 1 / 2 ^ 53))" by (simp add: algebra_simps)
  also have "\<dots> \<le> of_int maxHR * 1"
    by (rule mult_left_mono[OF _ m]) (simp add: lit_0_9_def)
  finally have "fl (of_int maxHR * lit_0_9) \<le> of_int maxHR" by simp
  then have "math_round (fl (of_int maxHR * lit_0_9)) \<le> math_round (of_int maxHR)"
    by (rule math_round_mono)
  then show "math_round (fl (of_int maxHR * lit_0_9)) \<le> maxHR" by simp
qed

lemma threshold_near:
  assumes "\<bar>lit - c\<bar> + \<bar>lit\<bar> / 2 ^ 53 \<le> 1 / 2 ^ 52"
  shows "\<bar>of_int (math_round (fl (of_int maxHR * lit))) - c * of_int maxHR\<bar>
           \<le> 1 / 2 + \<bar>of_int maxHR\<bar> / 2 ^ 52"
proof -
  define m :: rat where "m = of_int maxHR"
  define y where "y = fl (m * lit)"
  have 1: "\<bar>of_int (math_round y) - y\<bar> \<le> 1 / 2" by (rule math_round_error)
  have 2: "\<bar>y - m * lit\<bar> \<le> \<bar>m\<bar> * \<bar>lit\<bar> / 2 ^ 53"
    using fl_error[of "m * lit"] by (simp add: y_def abs_mult)
  have 3: "\<bar>m * lit - c * m\<bar> = \<bar>m\<bar> * \<bar>lit - c\<bar>"
    by (simp add: abs_mult[symmetric] algebra_simps)
  have "\<bar>m\<bar> * (\<bar>lit - c\<bar> + \<bar>lit\<bar> / 2 ^ 53) \<le> \<bar>m\<bar> * (1 / 2 ^ 52)"
    by (rule mult_left_mono[OF assms]) simp
  then have 4: "\<bar>m\<bar> * \<bar>lit - c\<bar> + \<bar>m\<bar> * \<bar>lit\<bar> / 2 ^ 53 \<le> \<bar>m\<bar> / 2 ^ 52"
    by (simp add: algebra_simps)
  have "\<bar>of_int (math_round y) - c * m\<bar> \<le> 1 / 2 + \<bar>m\<bar> / 2 ^ 52"
    using 1 2 3 4 by linarith
  then show ?thesis by (simp add: y_def m_def)
qed

lemma example_zones:
  "calculateMaxHeartRate 2025 1990 = 185"
  "map (upper_bound (getHeartRateZones 185)) [1, 2, 3, 4, 5] = [111, 130, 148, 167, 185]"
  by code_simp+

text \<open>
  Claim C4, as the code has it. \<^verbatim>\<open>getHeartRateZones\<close> yields five contiguous zones:
  zone 1 starts at \<open>0\<close> and every other zone starts at the upper bound of the zone
  below. The upper bounds of zones 1 to 4 are not the fractions \<open>0.6\<close>, \<open>0.7\<close>, \<open>0.8\<close>
  and \<open>0.9\<close> of \<open>maxHR\<close> but \<^verbatim>\<open>Math.round\<close> of the double products, integers within
  \<open>1/2 + |maxHR| / 2^52\<close> of the fractions; the upper bound of zone 5 is \<open>maxHR\<close> itself.
  The bounds are non-decreasing when \<open>maxHR\<close> is not negative. For the birth year 1990 in
  the year 2025 the maximum heart rate is 185 and the upper bounds are 111, 130, 148, 167
  and 185.
\<close>

theorem zone_thresholds:
  "(let zs = getHeartRateZones maxHR in
     lower_bound zs 1 = 0 \<and>
     lower_bound zs 2 = upper_bound zs 1 \<and> lower_bound zs 3 = upper_bound zs 2 \<and>
     lower_bound zs 4 = upper_bound zs 3 \<and> lower_bound zs 5 = upper_bound zs 4 \<and>
     upper_bound zs 1 = math_round (fl (of_int maxHR * lit_0_6)) \<and>
     upper_bound zs 2 = math_round (fl (of_int maxHR * lit_0_7)) \<and>
     upper_bound zs 3 = math_round (fl (of_int maxHR * lit_0_8)) \<and>
     upper_bound zs 4 = math_round (fl (of_int maxHR * lit_0_9)) \<and>
     upper_bound zs 5 = maxHR \<and>
     \<bar>rat_of_int (upper_bound zs 1) - 6 / 10 * rat_of_int maxHR\<bar> \<le> 1 / 2 + \<bar>rat_of_int maxHR\<bar> / 2 ^ 52 \<and>
     \<bar>rat_of_int (upper_bound zs 2) - 7 / 10 * rat_of_int maxHR\<bar> \<le> 1 / 2 + \<bar>rat_of_int maxHR\<bar> / 2 ^ 52 \<and>
     \<bar>rat_of_int (upper_bound zs 3) - 8 / 10 * rat_of_int maxHR\<bar> \<le> 1 / 2 + \<bar>rat_of_int maxHR\<bar> / 2 ^ 52 \<and>
     \<bar>rat_of_int (upper_bound zs 4) - 9 / 10 * rat_of_int maxHR\<bar> \<le> 1 / 2 + \<bar>rat_of_int maxHR\<bar> / 2 ^ 52 \<and>
     (0 \<le> maxHR \<longrightarrow>
        0 \<le> upper_bound zs 1 \<and> upper_bound zs 1 \<le> upper_bound zs 2 \<and>
        upper_bound zs 2 \<le> upper_bound zs 3 \<and> upper_bound zs 3 \<le> upper_bound zs 4 \<and>
        upper_bound zs 4 \<le> upper_bound zs 5)) \<and>
   calculateMaxHeartRate 2025 1990 = 185 \<and>
   map (upper_bound (getHeartRateZones 185)) [1, 2, 3, 4, 5] = [111, 130, 148, 167, 185]"
proof -
  have n1: "\<bar>of_int (math_round (fl (of_int maxHR * lit_0_6))) - 6 / 10 * of_int maxHR\<bar>
      \<le> 1 / 2 + \<bar>of_int maxHR :: rat\<bar> / 2 ^ 52"
    by (rule threshold_near) (simp add: lit_0_6_def)
  have n2: "\<bar>of_int (math_round (fl (of_int maxHR * lit_0_7))) - 7 / 10 * of_int maxHR\<bar>
      \<le> 1 / 2 + \<bar>of_int maxHR :: rat\<bar> / 2 ^ 52"
    by (rule threshold_near) (simp add: lit_0_7_def)
  have n3: "\<bar>of_int (math_round (fl (of_int maxHR * lit_0_8))) - 8 / 10 * of_int maxHR\<bar>
      \<le> 1 / 2 + \<bar>of_int maxHR :: rat\<bar> / 2 ^ 52"
    by (rule threshold_near) (simp add: lit_0_8_def)
  have n4: "\<bar>of_int (math_round (fl (of_int maxHR * lit_0_9))) - 9 / 10 * of_int maxHR\<bar>
      \<le> 1 / 2 + \<bar>of_int maxHR :: rat\<bar> / 2 ^ 52"
    by (rule threshold_near) (simp add: lit_0_9_def)
  show ?thesis
    using n1 n2 n3 n4 thresholds_mono[of maxHR] example_zones
    by (simp add: Let_def upper_bound_def lower_bound_def getHeartRateZones_def)
qed

theorem zone_thresholds_witness:
  "(0::int) \<le> 185 \<and>
   upper_bound (getHeartRateZones 185) 1 \<le> upper_bound (getHeartRateZones 185) 2 \<and>
   upper_bound (getHeartRateZones 185) 4 \<le> upper_bound (getHeartRateZones 185) 5 \<and>
   lower_bound (getHeartRateZones 185) 2 = upper_bound (getHeartRateZones 185) 1"
  using zone_thresholds [of 185]
  by (simp add: Let_def)

text \<open>
  The claim as stated fails for \<open>maxHR = 185\<close>: the upper bound of zone 2 is the integer
  130, not \<open>0.7 \<cdot> 185 = 129.5\<close>.
\<close>

theorem zone_bound_not_exact_fraction:
  "rat_of_int (upper_bound (getHeartRateZones 185) 2) \<noteq> 7 / 10 * 185"
proof -
  have "upper_bound (getHeartRateZones 185) 2 = 130" by code_simp
  then show ?thesis by simp
qed


section \<open>The loops as sums over the sample indices\<close>

lemma fold_enumerate_sum:
  fixes proj :: "'s \<Rightarrow> int"
  assumes "\<And>i x a. proj (step (i, x) a) = proj a + g i x"
  shows "proj (fold step (enumerate n xs) a) = proj a + (\<Sum>j<length xs. g (n + j) (xs ! j))"
proof (induction xs arbitrary: n a)
  case Nil
  then show ?case by simp
next
  case (Cons x xs)
  have "proj (fold step (enumerate n (x # xs)) a) =
        proj (fold step (enumerate (Suc n) xs) (step (n, x) a))" by simp
  also have "\<dots> = proj (step (n, x) a) + (\<Sum>j<length xs. g (Suc n + j) (xs ! j))"
    by (rule Cons.IH)
  also have "\<dots> = proj a + (g (n + 0) ((x # xs) ! 0) + (\<Sum>j<length xs. g (n + Suc j) ((x # xs) ! Suc j)))"
    by (simp add: assms)
  also have "g (n + 0) ((x # xs) ! 0) + (\<Sum>j<length xs. g (n + Suc j) ((x # xs) ! Suc j)) =
             (\<Sum>j<Suc (length xs). g (n + j) ((x # xs) ! j))"
    by (rule sum.lessThan_Suc_shift[symmetric])
  finally show ?case by simp
qed

lemma fold_enumerate_sum0:
  fixes proj :: "'s \<Rightarrow> int"
  assumes "\<And>i x a. proj (step (i, x) a) = proj a + g i x"
  shows "proj (fold step (enumerate 0 xs) a) = proj a + (\<Sum>j<length xs. g j (xs ! j))"
  using fold_enumerate_sum[of proj step g 0 xs a, OF assms] by simp

lemma fold_enumerate_keep:
  assumes "\<And>i x a. proj (step (i, x) a) = proj a"
  shows "proj (fold step (enumerate n xs) a) = proj a"
  by (induction xs arbitrary: n a) (simp_all add: assms)

lemma multiplier_values:
  "multiplier 1 = 1" "multiplier 2 = 2" "multiplier 3 = 3" "multiplier 4 = 5" "multiplier 5 = 8"
  by (simp_all add: multiplier_def the_zoneMultipliers_def)

lemma zone_of_range: "1 \<le> zone_of zs h \<and> zone_of zs h \<le> 5"
  by (simp add: zone_of_def)

lemma effort_step_fst:
  "fst (effort_step zs t (i, h) acc) =
   fst acc + (if 0 < h then timeIncrement t i * multiplier (zone_of zs h) else 0)"
  by (cases acc) (simp add: effort_step_def zone_of_def multiplier_def Let_def)

lemma effort_step_snd:
  "snd (effort_step zs t (i, h) acc) = snd acc + (if 0 < h then timeIncrement t i else 0)"
  by (cases acc) (simp add: effort_step_def Let_def)

lemma effort_totals_sums:
  "effort_totals zs h t = (weighted_seconds zs h t, classified_seconds h t)"
proof -
  have "fst (effort_totals zs h t) = weighted_seconds zs h t"
    unfolding effort_totals_def weighted_seconds_def
    by (subst fold_enumerate_sum0[where proj = fst
          and g = "\<lambda>i x. if 0 < x then timeIncrement t i * multiplier (zone_of zs x) else 0"])
       (simp_all add: effort_step_fst)
  moreover have "snd (effort_totals zs h t) = classified_seconds h t"
    unfolding effort_totals_def classified_seconds_def
    by (subst fold_enumerate_sum0[where proj = snd
          and g = "\<lambda>i x. if 0 < x then timeIncrement t i else 0"])
       (simp_all add: effort_step_snd)
  ultimately show ?thesis by (simp add: prod_eq_iff)
qed

lemma distribution_step_time:
  "1 \<le> k \<Longrightarrow> k \<le> 5 \<Longrightarrow>
   counter_time (counter (distribution_step zs t (i, h) d) k) =
   counter_time (counter d k) + (if 0 < h \<and> zone_of zs h = k then timeIncrement t i else 0)"
  by (simp add: distribution_step_def zone_of_def counter_def add_time_def Let_def)

lemma distribution_step_name:
  "counter_name (counter (distribution_step zs t p d) k) = counter_name (counter d k)"
  by (cases p) (simp add: distribution_step_def counter_def add_time_def Let_def)

lemma distribution_step_color:
  "counter_color (counter (distribution_step zs t p d) k) = counter_color (counter d k)"
  by (cases p) (simp add: distribution_step_def counter_def add_time_def Let_def)

lemma initial_counter_time: "counter_time (counter (initial_distribution zs) k) = 0"
  by (simp add: initial_distribution_def counter_def)

lemma zone_times_time:
  assumes "1 \<le> k" "k \<le> 5"
  shows "counter_time (counter (zone_times zs h t) k) = zone_seconds zs h t k"
  unfolding zone_times_def zone_seconds_def
  by (subst fold_enumerate_sum0[where proj = "\<lambda>d. counter_time (counter d k)"
        and g = "\<lambda>i x. if 0 < x \<and> zone_of zs x = k then timeIncrement t i else 0"])
     (simp_all only: distribution_step_time[OF assms] initial_counter_time add_0)

lemma zone_times_name:
  "counter_name (counter (zone_times zs h t) k) = counter_name (counter (initial_distribution zs) k)"
  unfolding zone_times_def
  by (rule fold_enumerate_keep[where proj = "\<lambda>d. counter_name (counter d k)"])
     (rule distribution_step_name)

lemma zone_times_color:
  "counter_color (counter (zone_times zs h t) k) = counter_color (counter (initial_distribution zs) k)"
  unfolding zone_times_def
  by (rule fold_enumerate_keep[where proj = "\<lambda>d. counter_color (counter d k)"])
     (rule distribution_step_color)


section \<open>Zone classification, charges and outputs\<close>

lemma zones_185:
  "zone_max (zone1 (getHeartRateZones 185)) = 111"
  "zone_max (zone2 (getHeartRateZones 185)) = 130"
  "zone_max (zone3 (getHeartRateZones 185)) = 148"
  "zone_max (zone4 (getHeartRateZones 185)) = 167"
  "zone_max (zone5 (getHeartRateZones 185)) = 185"
  by code_simp+

lemma upper_bound_lowest:
  assumes "1 \<le> k" "k \<le> 5" "h \<le> upper_bound zs k"
  shows "h \<le> upper_bound zs (zone_of zs h) \<and> zone_of zs h \<le> k"
proof -
  from assms(1,2) consider "k = 1" | "k = 2" | "k = 3" | "k = 4" | "k = 5" by linarith
  then show ?thesis
    using assms(3) by cases (auto simp add: zone_of_def upper_bound_def)
qed

lemma above_all_bounds:
  assumes "\<forall>k\<in>{1..5}. upper_bound zs k < h"
  shows "zone_of zs h = 5"
proof -
  have "upper_bound zs 1 < h" "upper_bound zs 2 < h" "upper_bound zs 3 < h" "upper_bound zs 4 < h"
    using assms by simp_all
  then show ?thesis by (simp add: zone_of_def upper_bound_def)
qed

lemma above_maxHR:
  assumes "0 \<le> maxHR" "maxHR < h"
  shows "zone_of (getHeartRateZones maxHR) h = 5"
  using thresholds_mono[OF assms(1)] assms(2)
  by (simp add: zone_of_def getHeartRateZones_def)

lemma excluded_sample:
  "h \<le> 0 \<Longrightarrow> distribution_step zs t (i, h) d = d \<and> effort_step zs t (i, h) acc = acc"
  by (cases acc) (simp add: distribution_step_def effort_step_def)

lemma effort_step_positive:
  "0 < h \<Longrightarrow> effort_step zs t (i, h) acc =
     (fst acc + timeIncrement t i * multiplier (zone_of zs h), snd acc + timeIncrement t i)"
  using effort_step_fst[of zs t i h acc] effort_step_snd[of zs t i h acc]
  by (simp add: prod_eq_iff)

lemma math_round_zero [simp]: "math_round 0 = 0"
  using math_round_of_int[of 0] by simp

lemma relative_effort_unfold:
  assumes "streams a = Some s" and "heartrate s = Some h"
    and "birth_year ath = Some y" and "y \<noteq> 0"
  shows "calculateRelativeEffortPoints cy (Some a) (Some ath) =
     (let zs = getHeartRateZones (calculateMaxHeartRate cy y);
          W = weighted_seconds zs h (time_or_empty s);
          T = classified_seconds h (time_or_empty s)
      in Some \<lparr> totalPoints = W,
                 relativeScore =
                   (if 0 < T then Math_round (js_mul (js_div (Num (of_int W)) (of_int T)) 3600)
                    else Num 0),
                 intensityFactor =
                   js_div (Math_round (js_mul
                     (if 0 < T then js_div (js_div (Num (of_int W)) (of_int T)) 3 else Num 0) 100)) 100,
                 timeInZones = Math_round (js_div (Num (of_int T)) 60),
                 res_zoneMultipliers = the_zoneMultipliers \<rparr>)"
  using assms
  by (simp add: calculateRelativeEffortPoints_def heartrate_streams_def birth_year_of_def
      effort_totals_sums Let_def)

lemma zone_distribution_unfold:
  assumes "streams a = Some s" and "heartrate s = Some h"
    and "birth_year ath = Some y" and "y \<noteq> 0"
  shows "getHeartRateZoneDistribution cy (Some a) (Some ath) =
     (let zs = getHeartRateZones (calculateMaxHeartRate cy y);
          t = time_or_empty s
      in filter (\<lambda>item. js_positive (item_time item))
           (map (chart_item t) (entries (zone_times zs h t))))"
  using assms
  by (simp add: getHeartRateZoneDistribution_def heartrate_streams_def birth_year_of_def Let_def)

lemma timeIncrement_fallback:
  "int (length t) - 1 \<le> int i \<Longrightarrow> timeIncrement t i = 1"
  by (simp add: timeIncrement_def)

lemma timeIncrement_charge:
  "timeIncrement t i = (if i + 1 < length t then t ! (i + 1) - t ! i else 1)"
  by (auto simp add: timeIncrement_def)

lemma zone_seconds_total:
  "(\<Sum>k\<in>{1..5}. zone_seconds zs h t k) = classified_seconds h t"
proof -
  have inner: "(\<Sum>k\<in>{1..5}. if 0 < h ! i \<and> zone_of zs (h ! i) = k then timeIncrement t i else 0) =
      (if 0 < h ! i then timeIncrement t i else 0)" for i
  proof (cases "0 < h ! i")
    case True
    have "zone_of zs (h ! i) \<in> {1..5}" using zone_of_range[of zs "h ! i"] by simp
    then have "(\<Sum>k\<in>{1..5}. if zone_of zs (h ! i) = k then timeIncrement t i else 0) =
        timeIncrement t i"
      by (simp add: sum.delta')
    with True show ?thesis by simp
  next
    case False
    then show ?thesis by simp
  qed
  have "(\<Sum>k\<in>{1..5}. zone_seconds zs h t k) =
      (\<Sum>i<length h. \<Sum>k\<in>{1..5}.
         if 0 < h ! i \<and> zone_of zs (h ! i) = k then timeIncrement t i else 0)"
    unfolding zone_seconds_def by (rule sum.swap)
  also have "\<dots> = classified_seconds h t"
    unfolding classified_seconds_def by (simp only: inner)
  finally show ?thesis .
qed

lemma fl_nonpos:
  assumes "x \<le> 0"
  shows "fl x \<le> 0"
proof -
  have "\<bar>x\<bar> / 2 ^ 53 \<le> \<bar>x\<bar> / 1" by (rule divide_left_mono) simp_all
  then show ?thesis using fl_error[of x] assms by linarith
qed

lemma minutes_positive_iff: "(0 < math_round (fl (of_int s / 60))) = (30 \<le> s)"
proof
  assume pos: "0 < math_round (fl (of_int s / 60))"
  show "30 \<le> s"
  proof (rule ccontr)
    assume "\<not> 30 \<le> s"
    then have s: "s \<le> 29" by simp
    define x :: rat where "x = of_int s / 60"
    have "fl x < 1 / 2"
    proof (cases "s \<le> 0")
      case True
      then have "x \<le> 0" by (simp add: x_def divide_nonpos_pos)
      then show ?thesis using fl_nonpos[of x] by linarith
    next
      case False
      then have x0: "0 \<le> x" by (simp add: x_def)
      have "x \<le> 29 / 60" using s by (simp add: x_def)
      moreover have "fl x \<le> x + x / 2 ^ 53" using fl_error[of x] x0 by linarith
      moreover have "x / 2 ^ 53 \<le> 1 / 2 ^ 53"
        using \<open>x \<le> 29 / 60\<close> by (intro divide_right_mono) simp_all
      moreover have "(1::rat) / 2 ^ 53 \<le> 1 / 120" by simp
      ultimately show ?thesis by linarith
    qed
    then have "math_round (fl x) \<le> 0" unfolding math_round_def by linarith
    with pos show False by (simp add: x_def)
  qed
next
  assume "30 \<le> s"
  then have "pow2 (- 1) \<le> of_int s / 60" by (simp add: pow2_def)
  then have "pow2 (- 1) \<le> fl (of_int s / 60)" by (rule fl_ge_pow2)
  then have "1 / 2 \<le> fl (of_int s / 60)" by (simp add: pow2_def)
  then show "0 < math_round (fl (of_int s / 60))" unfolding math_round_def by linarith
qed

lemma last_time_or_1_nonzero: "last_time_or_1 t \<noteq> 0"
  by (simp add: last_time_or_1_def)

lemma chart_item_finite:
  "chart_item t c =
     \<lparr> item_zone = counter_name c,
       item_time = Num (of_int (math_round (fl (of_int (counter_time c) / 60)))),
       item_percentage =
         Num (of_int (math_round (fl (fl (of_int (counter_time c) / of_int (last_time_or_1 t)) * 100)))),
       item_color = counter_color c \<rparr>"
  by (simp add: chart_item_def last_time_or_1_nonzero)

lemma entries_counters: "entries d = map (counter d) [1, 2, 3, 4, 5]"
  by (simp add: entries_def counter_def)

lemma initial_counter_label:
  "counter_name (counter (initial_distribution zs) k) = zone_name (nth_zone zs k)"
  "counter_color (counter (initial_distribution zs) k) = zone_color (nth_zone zs k)"
  by (simp_all add: initial_distribution_def counter_def nth_zone_def)

lemma zone_times_counter:
  assumes "1 \<le> k" "k \<le> 5"
  shows "counter (zone_times zs h t) k =
     \<lparr> counter_time = zone_seconds zs h t k,
       counter_name = zone_name (nth_zone zs k),
       counter_color = zone_color (nth_zone zs k) \<rparr>"
  using zone_times_time[OF assms, of zs h t] zone_times_name[of zs h t k]
    zone_times_color[of zs h t k]
  by (simp add: initial_counter_label)

lemma zone_distribution_items:
  assumes "streams a = Some s" and "heartrate s = Some h"
    and "birth_year ath = Some y" and "y \<noteq> 0"
  shows "getHeartRateZoneDistribution cy (Some a) (Some ath) =
     map (\<lambda>k.
        \<lparr> item_zone = zone_name (nth_zone (getHeartRateZones (calculateMaxHeartRate cy y)) k),
          item_time = Num (of_int (math_round (fl (of_int
            (zone_seconds (getHeartRateZones (calculateMaxHeartRate cy y)) h (time_or_empty s) k) / 60)))),
          item_percentage =
            Num (of_int (math_round
              (fl (fl (of_int
                (zone_seconds (getHeartRateZones (calculateMaxHeartRate cy y)) h (time_or_empty s) k) /
                 of_int (last_time_or_1 (time_or_empty s))) * 100)))),
          item_color = zone_color (nth_zone (getHeartRateZones (calculateMaxHeartRate cy y)) k) \<rparr>)
       (filter (\<lambda>k. 30 \<le> zone_seconds (getHeartRateZones (calculateMaxHeartRate cy y)) h
                         (time_or_empty s) k) [1, 2, 3, 4, 5])"
proof -
  define zs where "zs = getHeartRateZones (calculateMaxHeartRate cy y)"
  define t where "t = time_or_empty s"
  define item where "item = (\<lambda>k.
    \<lparr> item_zone = zone_name (nth_zone zs k),
      item_time = Num (of_int (math_round (fl (of_int (zone_seconds zs h t k) / 60)))),
      item_percentage =
        Num (of_int (math_round
          (fl (fl (of_int (zone_seconds zs h t k) / of_int (last_time_or_1 t)) * 100)))),
      item_color = zone_color (nth_zone zs k) \<rparr>)"
  have i: "chart_item t (counter (zone_times zs h t) k) = item k" if "k \<in> set [1, 2, 3, 4, 5]" for k
  proof -
    from that have "1 \<le> k" "k \<le> 5" by auto
    then show ?thesis
      by (simp add: chart_item_finite zone_times_counter item_def)
  qed
  have p: "js_positive (item_time (item k)) = (30 \<le> zone_seconds zs h t k)" for k
    using minutes_positive_iff[of "zone_seconds zs h t k"] by (simp add: item_def)
  have "getHeartRateZoneDistribution cy (Some a) (Some ath) =
      filter (\<lambda>item. js_positive (item_time item))
        (map (chart_item t) (map (counter (zone_times zs h t)) [1, 2, 3, 4, 5]))"
    using zone_distribution_unfold[OF assms, of cy]
    by (simp only: Let_def zs_def t_def entries_counters)
  also have "map (chart_item t) (map (counter (zone_times zs h t)) [1, 2, 3, 4, 5]) =
      map item [1, 2, 3, 4, 5]"
    unfolding map_map by (rule map_cong[OF refl]) (simp only: o_apply i)
  also have "filter (\<lambda>item. js_positive (item_time item)) (map item [1, 2, 3, 4, 5]) =
      map item (filter (\<lambda>k. 30 \<le> zone_seconds zs h t k) [1, 2, 3, 4, 5])"
    unfolding filter_map o_def p ..
  finally show ?thesis unfolding item_def zs_def t_def .
qed

lemma zone_labels:
  "zone_name (nth_zone (getHeartRateZones m) (Suc 0)) = ''Recovery (Zone 1)''"
  "zone_color (nth_zone (getHeartRateZones m) (Suc 0)) = ''#4FC3F7''"
  "zone_name (nth_zone (getHeartRateZones m) 4) = ''Lactate Threshold (Zone 4)''"
  "zone_color (nth_zone (getHeartRateZones m) 4) = ''#FF9800''"
  by (simp_all add: nth_zone_def getHeartRateZones_def)

lemma example_rounding:
  "math_round (fl (31 / 60)) = 1"
  "math_round (fl (fl (31 / 45) * 100)) = 69"
  "math_round (fl (fl (31 / 30) * 100)) = 103"
  by code_simp+


section \<open>Zone classification\<close>

lemma example_loops:
  "map (\<lambda>k. counter_time (counter (zone_times (getHeartRateZones 185) [100, 0, 160, 100] [0, 10, 30, 60]) k))
     [1, 2, 3, 4, 5] = [11, 0, 0, 30, 0]"
  "effort_totals (getHeartRateZones 185) [100, 0, 160, 100] [0, 10, 30, 60] = (161, 41)"
  "getHeartRateZoneDistribution 2025
     (Some (example_activity 1 3 (Some [0, 10, 30, 60]) [100, 0, 160, 100])) (Some example_athlete) =
   [\<lparr> item_zone = ''Lactate Threshold (Zone 4)'', item_time = Num 1, item_percentage = Num 50,
      item_color = ''#FF9800'' \<rparr>]"
  "map_option totalPoints (calculateRelativeEffortPoints 2025
     (Some (example_activity 1 3 (Some [0, 10, 30, 60]) [100, 0, 160, 100])) (Some example_athlete)) =
   Some 161"
  by code_simp+

text \<open>
  Claim C6. The chain of comparisons assigns a sample \<open>h\<close> to a zone between 1 and 5. If
  some zone has an upper bound \<open>\<ge> h\<close>, the chosen zone is the lowest such zone; if no
  zone has one, the sample is assigned to zone 5, which is the case of every value above
  \<open>maxHR\<close>. A sample \<open>h \<le> 0\<close> leaves both accumulators unchanged. A positive sample
  changes the counter of exactly one zone, the chosen one, in the zone distribution, and
  is charged with the multiplier of that zone in the effort. The two loops are the sums
  of these steps over the heart-rate stream \<open>hs\<close>: the seconds that \<^verbatim>\<open>zone_times\<close>
  accumulates for the zone \<open>k\<close> are the charges of the positive samples whose zone is
  \<open>k\<close>, the totals of \<^verbatim>\<open>effort_totals\<close> are the weighted and the plain sum of the charges
  of the positive samples, and the seconds of the five zones add up to the plain sum, so
  that every positive sample is counted in exactly one zone and no other sample in any.
  The outputs of \<^verbatim>\<open>getHeartRateZoneDistribution\<close> and of \<^verbatim>\<open>calculateRelativeEffortPoints\<close>
  are formed from these sums.
\<close>

theorem zone_classification:
  "1 \<le> zone_of zs h \<and> zone_of zs h \<le> 5 \<and>
   (\<forall>k\<in>{1..5}. h \<le> upper_bound zs k \<longrightarrow>
      h \<le> upper_bound zs (zone_of zs h) \<and> zone_of zs h \<le> k) \<and>
   ((\<forall>k\<in>{1..5}. upper_bound zs k < h) \<longrightarrow> zone_of zs h = 5) \<and>
   (0 \<le> maxHR \<and> maxHR < h \<longrightarrow> zone_of (getHeartRateZones maxHR) h = 5) \<and>
   (h \<le> 0 \<longrightarrow> distribution_step zs t (i, h) d = d \<and> effort_step zs t (i, h) acc = acc) \<and>
   (0 < h \<longrightarrow>
      (\<forall>k\<in>{1..5}. counter_time (counter (distribution_step zs t (i, h) d) k) =
          counter_time (counter d k) + (if k = zone_of zs h then timeIncrement t i else 0)) \<and>
      effort_step zs t (i, h) acc =
        (fst acc + timeIncrement t i * multiplier (zone_of zs h), snd acc + timeIncrement t i)) \<and>
   (\<forall>k\<in>{1..5}. counter_time (counter (zone_times zs hs t) k) =
      (\<Sum>j<length hs. if 0 < hs ! j \<and> zone_of zs (hs ! j) = k then timeIncrement t j else 0)) \<and>
   effort_totals zs hs t =
     ((\<Sum>j<length hs. if 0 < hs ! j
         then timeIncrement t j * multiplier (zone_of zs (hs ! j)) else 0),
      (\<Sum>j<length hs. if 0 < hs ! j then timeIncrement t j else 0)) \<and>
   (\<Sum>k\<in>{1..5}. counter_time (counter (zone_times zs hs t) k)) = snd (effort_totals zs hs t) \<and>
   (streams a = Some s \<and> heartrate s = Some hs \<and> birth_year ath = Some y \<and> y \<noteq> 0 \<longrightarrow>
      getHeartRateZoneDistribution cy (Some a) (Some ath) =
        filter (\<lambda>item. js_positive (item_time item))
          (map (\<lambda>k. chart_item (time_or_empty s)
             \<lparr> counter_time =
                 (\<Sum>j<length hs.
                    if 0 < hs ! j \<and>
                       zone_of (getHeartRateZones (calculateMaxHeartRate cy y)) (hs ! j) = k
                    then timeIncrement (time_or_empty s) j else 0),
               counter_name = zone_name (nth_zone (getHeartRateZones (calculateMaxHeartRate cy y)) k),
               counter_color = zone_color (nth_zone (getHeartRateZones (calculateMaxHeartRate cy y)) k) \<rparr>)
            [1, 2, 3, 4, 5]) \<and>
      (\<exists>r. calculateRelativeEffortPoints cy (Some a) (Some ath) = Some r \<and>
           totalPoints r =
             (\<Sum>j<length hs. if 0 < hs ! j
                then timeIncrement (time_or_empty s) j *
                     multiplier (zone_of (getHeartRateZones (calculateMaxHeartRate cy y)) (hs ! j))
                else 0)))"
proof -
  have 1: "\<forall>k\<in>{1..5}. h \<le> upper_bound zs k \<longrightarrow>
      h \<le> upper_bound zs (zone_of zs h) \<and> zone_of zs h \<le> k"
  proof (intro ballI impI)
    fix k :: nat
    assume "k \<in> {1..5}" and "h \<le> upper_bound zs k"
    then show "h \<le> upper_bound zs (zone_of zs h) \<and> zone_of zs h \<le> k"
      using upper_bound_lowest[of k h zs] by simp
  qed
  have 2: "0 < h \<longrightarrow> (\<forall>k\<in>{1..5}. counter_time (counter (distribution_step zs t (i, h) d) k) =
          counter_time (counter d k) + (if k = zone_of zs h then timeIncrement t i else 0))"
    using distribution_step_time[of _ zs t i h d] by auto
  have 3: "\<forall>k\<in>{1..5}. counter_time (counter (zone_times zs hs t) k) =
      (\<Sum>j<length hs. if 0 < hs ! j \<and> zone_of zs (hs ! j) = k then timeIncrement t j else 0)"
    using zone_times_time[of _ zs hs t] by (simp add: zone_seconds_def)
  have 4: "effort_totals zs hs t =
     ((\<Sum>j<length hs. if 0 < hs ! j
         then timeIncrement t j * multiplier (zone_of zs (hs ! j)) else 0),
      (\<Sum>j<length hs. if 0 < hs ! j then timeIncrement t j else 0))"
    by (simp add: effort_totals_sums weighted_seconds_def classified_seconds_def)
  have "(\<Sum>k\<in>{1..5}. counter_time (counter (zone_times zs hs t) k)) =
      (\<Sum>k\<in>{1..5}. zone_seconds zs hs t k)"
    by (rule sum.cong) (simp_all add: zone_times_time)
  also have "\<dots> = classified_seconds hs t" by (rule zone_seconds_total)
  also have "\<dots> = snd (effort_totals zs hs t)" by (simp add: effort_totals_sums)
  finally have 5: "(\<Sum>k\<in>{1..5}. counter_time (counter (zone_times zs hs t) k)) =
      snd (effort_totals zs hs t)" .
  have 6: "streams a = Some s \<and> heartrate s = Some hs \<and> birth_year ath = Some y \<and> y \<noteq> 0 \<longrightarrow>
      getHeartRateZoneDistribution cy (Some a) (Some ath) =
        filter (\<lambda>item. js_positive (item_time item))
          (map (\<lambda>k. chart_item (time_or_empty s)
             \<lparr> counter_time =
                 (\<Sum>j<length hs.
                    if 0 < hs ! j \<and>
                       zone_of (getHeartRateZones (calculateMaxHeartRate cy y)) (hs ! j) = k
                    then timeIncrement (time_or_empty s) j else 0),
               counter_name = zone_name (nth_zone (getHeartRateZones (calculateMaxHeartRate cy y)) k),
               counter_color = zone_color (nth_zone (getHeartRateZones (calculateMaxHeartRate cy y)) k) \<rparr>)
            [1, 2, 3, 4, 5]) \<and>
      (\<exists>r. calculateRelativeEffortPoints cy (Some a) (Some ath) = Some r \<and>
           totalPoints r =
             (\<Sum>j<length hs. if 0 < hs ! j
                then timeIncrement (time_or_empty s) j *
                     multiplier (zone_of (getHeartRateZones (calculateMaxHeartRate cy y)) (hs ! j))
                else 0))"
  proof
    assume A: "streams a = Some s \<and> heartrate s = Some hs \<and> birth_year ath = Some y \<and> y \<noteq> 0"
    then have a: "streams a = Some s" "heartrate s = Some hs" "birth_year ath = Some y" "y \<noteq> 0"
      by simp_all
    define zs' where "zs' = getHeartRateZones (calculateMaxHeartRate cy y)"
    define t' where "t' = time_or_empty s"
    have c: "counter (zone_times zs' hs t') k =
        \<lparr> counter_time = (\<Sum>j<length hs. if 0 < hs ! j \<and> zone_of zs' (hs ! j) = k
                            then timeIncrement t' j else 0),
          counter_name = zone_name (nth_zone zs' k),
          counter_color = zone_color (nth_zone zs' k) \<rparr>" if "k \<in> set [1, 2, 3, 4, 5]" for k
    proof -
      from that have "1 \<le> k" "k \<le> 5" by auto
      then show ?thesis by (simp add: zone_times_counter zone_seconds_def)
    qed
    have "getHeartRateZoneDistribution cy (Some a) (Some ath) =
        filter (\<lambda>item. js_positive (item_time item))
          (map (chart_item t') (map (counter (zone_times zs' hs t')) [1, 2, 3, 4, 5]))"
      using zone_distribution_unfold[OF a, of cy]
      by (simp only: Let_def zs'_def t'_def entries_counters)
    also have "map (chart_item t') (map (counter (zone_times zs' hs t')) [1, 2, 3, 4, 5]) =
        map (\<lambda>k. chart_item t'
             \<lparr> counter_time = (\<Sum>j<length hs. if 0 < hs ! j \<and> zone_of zs' (hs ! j) = k
                                 then timeIncrement t' j else 0),
               counter_name = zone_name (nth_zone zs' k),
               counter_color = zone_color (nth_zone zs' k) \<rparr>) [1, 2, 3, 4, 5]"
      unfolding map_map by (rule map_cong[OF refl]) (simp only: o_apply c)
    finally have d: "getHeartRateZoneDistribution cy (Some a) (Some ath) =
        filter (\<lambda>item. js_positive (item_time item))
          (map (\<lambda>k. chart_item t'
             \<lparr> counter_time = (\<Sum>j<length hs. if 0 < hs ! j \<and> zone_of zs' (hs ! j) = k
                                 then timeIncrement t' j else 0),
               counter_name = zone_name (nth_zone zs' k),
               counter_color = zone_color (nth_zone zs' k) \<rparr>) [1, 2, 3, 4, 5])" .
    have e: "\<exists>r. calculateRelativeEffortPoints cy (Some a) (Some ath) = Some r \<and>
           totalPoints r =
             (\<Sum>j<length hs. if 0 < hs ! j
                then timeIncrement t' j * multiplier (zone_of zs' (hs ! j)) else 0)"
      unfolding zs'_def t'_def using relative_effort_unfold[OF a, of cy]
      by (simp add: Let_def weighted_seconds_def)
    show "getHeartRateZoneDistribution cy (Some a) (Some ath) =
        filter (\<lambda>item. js_positive (item_time item))
          (map (\<lambda>k. chart_item (time_or_empty s)
             \<lparr> counter_time =
                 (\<Sum>j<length hs.
                    if 0 < hs ! j \<and>
                       zone_of (getHeartRateZones (calculateMaxHeartRate cy y)) (hs ! j) = k
                    then timeIncrement (time_or_empty s) j else 0),
               counter_name = zone_name (nth_zone (getHeartRateZones (calculateMaxHeartRate cy y)) k),
               counter_color = zone_color (nth_zone (getHeartRateZones (calculateMaxHeartRate cy y)) k) \<rparr>)
            [1, 2, 3, 4, 5]) \<and>
      (\<exists>r. calculateRelativeEffortPoints cy (Some a) (Some ath) = Some r \<and>
           totalPoints r =
             (\<Sum>j<length hs. if 0 < hs ! j
                then timeIncrement (time_or_empty s) j *
                     multiplier (zone_of (getHeartRateZones (calculateMaxHeartRate cy y)) (hs ! j))
                else 0))"
      using d e unfolding zs'_def t'_def by blast
  qed
  show ?thesis
    using 1 2 3 4 5 6 zone_of_range[of zs h] above_all_bounds[of zs h] above_maxHR[of maxHR h]
      excluded_sample[of h zs t i d acc] effort_step_positive[of h zs t i acc]
    by blast
qed

theorem zone_classification_witness:
  "(160::int) \<le> upper_bound (getHeartRateZones 185) 4 \<and>
   upper_bound (getHeartRateZones 185) 5 < 200 \<and>
   zone_of (getHeartRateZones 185) 100 = 1 \<and>
   zone_of (getHeartRateZones 185) 160 = 4 \<and>
   zone_of (getHeartRateZones 185) 111 = 1 \<and>
   zone_of (getHeartRateZones 185) 112 = 2 \<and>
   zone_of (getHeartRateZones 185) 200 = 5 \<and>
   effort_step (getHeartRateZones 185) [0, 10, 30, 60] (1, 0) (10, 10) = (10, 10) \<and>
   effort_step (getHeartRateZones 185) [0, 10, 30, 60] (2, 160) (10, 10) = (160, 40) \<and>
   map (\<lambda>k. counter_time (counter (zone_times (getHeartRateZones 185) [100, 0, 160, 100] [0, 10, 30, 60]) k))
     [1, 2, 3, 4, 5] = [10 + 1, 0, 0, 30, 0] \<and>
   effort_totals (getHeartRateZones 185) [100, 0, 160, 100] [0, 10, 30, 60] =
     (10 * 1 + 30 * 5 + 1 * 1, 10 + 30 + 1) \<and>
   getHeartRateZoneDistribution 2025
     (Some (example_activity 1 3 (Some [0, 10, 30, 60]) [100, 0, 160, 100])) (Some example_athlete) =
   [\<lparr> item_zone = ''Lactate Threshold (Zone 4)'', item_time = Num 1, item_percentage = Num 50,
      item_color = ''#FF9800'' \<rparr>] \<and>
   map_option totalPoints (calculateRelativeEffortPoints 2025
     (Some (example_activity 1 3 (Some [0, 10, 30, 60]) [100, 0, 160, 100])) (Some example_athlete)) =
   Some (10 * 1 + 30 * 5 + 1 * 1)"
proof -
  have a: "(4::nat) \<in> {1..5}" "(160::int) \<le> upper_bound (getHeartRateZones 185) 4"
    by (simp_all add: upper_bound_def zones_185)
  have b: "\<forall>k\<in>{1..5}. upper_bound (getHeartRateZones 185) k < 200"
    by (simp add: upper_bound_def zones_185)
  have c: "(0::int) \<le> 185 \<and> (185::int) < 200" "(0::int) \<le> 0" "(0::int) < 160" by simp_all
  have t: "timeIncrement [0, 10, 30, 60] 2 = 30" by (simp add: timeIncrement_def)
  have h: "streams (example_activity 1 3 (Some [0, 10, 30, 60]) [100, 0, 160, 100]) =
      Some \<lparr> time_stream = Some [0, 10, 30, 60], heartrate = Some [100, 0, 160, 100] \<rparr> \<and>
    heartrate \<lparr> time_stream = Some [0, 10, 30, 60], heartrate = Some [100, 0, 160, 100] \<rparr> =
      Some [100, 0, 160, 100] \<and>
    birth_year example_athlete = Some 1990 \<and> (1990::int) \<noteq> 0"
    by (simp add: example_activity_def example_athlete_def)
  note T = zone_classification[of "getHeartRateZones 185" _ _ "[0, 10, 30, 60]" _
      "initial_distribution (getHeartRateZones 185)" _ "[100, 0, 160, 100]"
      "example_activity 1 3 (Some [0, 10, 30, 60]) [100, 0, 160, 100]"
      "\<lparr> time_stream = Some [0, 10, 30, 60], heartrate = Some [100, 0, 160, 100] \<rparr>"
      example_athlete 1990 2025]
  have S: "zone_of (getHeartRateZones 185) 160 = 4 \<and>
     zone_of (getHeartRateZones 185) 200 = 5 \<and>
     effort_step (getHeartRateZones 185) [0, 10, 30, 60] (1, 0) (10, 10) = (10, 10) \<and>
     effort_step (getHeartRateZones 185) [0, 10, 30, 60] (2, 160) (10, 10) = (160, 40)"
    using T[of 160 185 2 "(10, 10)"] T[of 200 185 2 "(10, 10)"] T[of 0 185 1 "(10, 10)"] a b c t
    by (simp add: zone_of_def zones_185 multiplier_def the_zoneMultipliers_def)
  have Z: "zone_of (getHeartRateZones 185) 100 = 1" "zone_of (getHeartRateZones 185) 111 = 1"
    "zone_of (getHeartRateZones 185) 112 = 2"
    by (simp_all add: zone_of_def zones_185)
  show ?thesis
    using T[of 160 185 2 "(10, 10)"] h S Z a(2) b example_loops
    by (simp add: upper_bound_def zones_185)
qed


section \<open>Time increments\<close>

text \<open>
  Claim C5, as the code has it. In the zone distribution and in the relative effort alike,
  the sample at index \<open>i\<close> is charged \<open>time[i+1] - time[i]\<close> when the time stream has a
  value at index \<open>i + 1\<close>, and 1 second otherwise; the seconds of every zone and the
  totals of the effort are the sums of these charges over the positive samples. When the
  time stream is as long as the heart-rate stream this is the charge of the
  specification: the difference for every sample but the final one, and 1 second for the
  final one. When the time stream is longer, the final heart-rate sample is charged a
  difference. The witness is the scenario with the samples 100, 160, 100 at the times 0,
  30, 60: the charges are 30, 30 and 1 and the total is \<open>30 \<cdot> 1 + 30 \<cdot> 5 + 1 \<cdot> 1\<close>.
\<close>

theorem time_increment_charges:
  assumes "streams a = Some s" and "heartrate s = Some h"
    and "birth_year ath = Some y" and "y \<noteq> 0"
  shows "(let zs = getHeartRateZones (calculateMaxHeartRate cy y);
              t = time_or_empty s;
              charge = (\<lambda>i. if i + 1 < length t then t ! (i + 1) - t ! i else 1)
          in (\<forall>i<length h. timeIncrement t i = charge i) \<and>
             (length t = length h \<longrightarrow> (\<forall>i<length h. charge i = spec_charge h t i)) \<and>
             (h \<noteq> [] \<and> length h < length t \<longrightarrow>
                charge (length h - 1) = t ! length h - t ! (length h - 1)) \<and>
             (\<forall>k\<in>{1..5}. counter_time (counter (zone_times zs h t) k) =
                (\<Sum>i<length h. if 0 < h ! i \<and> zone_of zs (h ! i) = k then charge i else 0)) \<and>
             effort_totals zs h t =
               ((\<Sum>i<length h. if 0 < h ! i
                   then charge i * multiplier (zone_of zs (h ! i)) else 0),
                (\<Sum>i<length h. if 0 < h ! i then charge i else 0)) \<and>
             getHeartRateZoneDistribution cy (Some a) (Some ath) =
               filter (\<lambda>item. js_positive (item_time item))
                 (map (chart_item t) (entries (zone_times zs h t))) \<and>
             (\<exists>r. calculateRelativeEffortPoints cy (Some a) (Some ath) = Some r \<and>
                  totalPoints r =
                    (\<Sum>i<length h. if 0 < h ! i
                       then charge i * multiplier (zone_of zs (h ! i)) else 0)))"
proof -
  define zs where "zs = getHeartRateZones (calculateMaxHeartRate cy y)"
  define t where "t = time_or_empty s"
  define charge where "charge = (\<lambda>i. if i + 1 < length t then t ! (i + 1) - t ! i else 1)"
  have c: "timeIncrement t i = charge i" for i
    by (simp add: timeIncrement_charge charge_def)
  have 1: "\<forall>i<length h. timeIncrement t i = charge i" by (simp add: c)
  have 2: "length t = length h \<longrightarrow> (\<forall>i<length h. charge i = spec_charge h t i)"
    by (simp add: charge_def spec_charge_def)
  have 3: "h \<noteq> [] \<and> length h < length t \<longrightarrow>
      charge (length h - 1) = t ! length h - t ! (length h - 1)"
    by (auto simp add: charge_def)
  have 4: "\<forall>k\<in>{1..5}. counter_time (counter (zone_times zs h t) k) =
      (\<Sum>i<length h. if 0 < h ! i \<and> zone_of zs (h ! i) = k then charge i else 0)"
    using zone_times_time[of _ zs h t] by (simp add: zone_seconds_def c cong: if_cong)
  have 5: "effort_totals zs h t =
      ((\<Sum>i<length h. if 0 < h ! i then charge i * multiplier (zone_of zs (h ! i)) else 0),
       (\<Sum>i<length h. if 0 < h ! i then charge i else 0))"
    by (simp add: effort_totals_sums weighted_seconds_def classified_seconds_def c cong: if_cong)
  have 6: "getHeartRateZoneDistribution cy (Some a) (Some ath) =
      filter (\<lambda>item. js_positive (item_time item)) (map (chart_item t) (entries (zone_times zs h t)))"
    using zone_distribution_unfold[OF assms, of cy] by (simp add: Let_def t_def zs_def)
  have 7: "\<exists>r. calculateRelativeEffortPoints cy (Some a) (Some ath) = Some r \<and>
      totalPoints r = (\<Sum>i<length h. if 0 < h ! i then charge i * multiplier (zone_of zs (h ! i)) else 0)"
    using relative_effort_unfold[OF assms, of cy]
    by (simp add: Let_def t_def[symmetric] zs_def[symmetric] weighted_seconds_def c cong: if_cong)
  show ?thesis
    using 1 2 3 4 5 6 7
    unfolding Let_def zs_def[symmetric] t_def[symmetric] charge_def
    by blast
qed

lemma example_scenario_B:
  "map (timeIncrement [0, 30, 60]) [0, 1, 2] = [30, 30, 1]"
  "map (spec_charge [100, 160, 100] [0, 30, 60]) [0, 1, 2] = [30, 30, 1]"
  "map (zone_of (getHeartRateZones 185)) [100, 160, 100] = [1, 4, 1]"
  "map (\<lambda>k. counter_time (counter (zone_times (getHeartRateZones 185) [100, 160, 100] [0, 30, 60]) k))
     [1, 2, 3, 4, 5] = [30 + 1, 0, 0, 30, 0]"
  "effort_totals (getHeartRateZones 185) [100, 160, 100] [0, 30, 60] =
     (30 * 1 + 30 * 5 + 1 * 1, 30 + 30 + 1)"
  "map_option totalPoints (calculateRelativeEffortPoints 2025
     (Some (example_activity 1 3 (Some [0, 30, 60]) [100, 160, 100])) (Some example_athlete)) =
   Some (30 * 1 + 30 * 5 + 1 * 1)"
  "getHeartRateZoneDistribution 2025
     (Some (example_activity 1 3 (Some [0, 30, 60]) [100, 160, 100])) (Some example_athlete) =
     [\<lparr> item_zone = ''Recovery (Zone 1)'', item_time = Num 1, item_percentage = Num 52,
        item_color = ''#4FC3F7'' \<rparr>,
      \<lparr> item_zone = ''Lactate Threshold (Zone 4)'', item_time = Num 1, item_percentage = Num 50,
        item_color = ''#FF9800'' \<rparr>]"
  by code_simp+

theorem time_increment_charges_witness:
  "map (timeIncrement [0, 30, 60]) [0, 1, 2] = [30, 30, 1] \<and>
   map (spec_charge [100, 160, 100] [0, 30, 60]) [0, 1, 2] = [30, 30, 1] \<and>
   map (zone_of (getHeartRateZones 185)) [100, 160, 100] = [1, 4, 1] \<and>
   map (\<lambda>k. counter_time (counter (zone_times (getHeartRateZones 185) [100, 160, 100] [0, 30, 60]) k))
     [1, 2, 3, 4, 5] = [30 + 1, 0, 0, 30, 0] \<and>
   effort_totals (getHeartRateZones 185) [100, 160, 100] [0, 30, 60] =
     (30 * 1 + 30 * 5 + 1 * 1, 30 + 30 + 1) \<and>
   getHeartRateZoneDistribution 2025
     (Some (example_activity 1 3 (Some [0, 30, 60]) [100, 160, 100])) (Some example_athlete) =
     [\<lparr> item_zone = ''Recovery (Zone 1)'', item_time = Num 1, item_percentage = Num 52,
        item_color = ''#4FC3F7'' \<rparr>,
      \<lparr> item_zone = ''Lactate Threshold (Zone 4)'', item_time = Num 1, item_percentage = Num 50,
        item_color = ''#FF9800'' \<rparr>] \<and>
   (\<exists>r. calculateRelativeEffortPoints 2025
          (Some (example_activity 1 3 (Some [0, 30, 60]) [100, 160, 100])) (Some example_athlete) = Some r \<and>
        totalPoints r = 30 * 1 + 30 * 5 + 1 * 1)"
proof -
  have h: "streams (example_activity 1 3 (Some [0, 30, 60]) [100, 160, 100]) =
      Some \<lparr> time_stream = Some [0, 30, 60], heartrate = Some [100, 160, 100] \<rparr>"
    "heartrate \<lparr> time_stream = Some [0, 30, 60], heartrate = Some [100, 160, 100] \<rparr> =
      Some [100, 160, 100]"
    "birth_year example_athlete = Some 1990" "(1990::int) \<noteq> 0"
    by (simp_all add: example_activity_def example_athlete_def)
  have T: "\<exists>r. calculateRelativeEffortPoints 2025
          (Some (example_activity 1 3 (Some [0, 30, 60]) [100, 160, 100])) (Some example_athlete) = Some r"
    using time_increment_charges[OF h, of 2025] unfolding Let_def by blast
  have "\<exists>r. calculateRelativeEffortPoints 2025
          (Some (example_activity 1 3 (Some [0, 30, 60]) [100, 160, 100])) (Some example_athlete) = Some r \<and>
        totalPoints r = 30 * 1 + 30 * 5 + 1 * 1"
    using T example_scenario_B(6) by auto
  then show ?thesis using example_scenario_B by blast
qed

text \<open>
  The claim as stated fails when the heart-rate stream is shorter than the time stream.
  For the samples 100, 160, 100 at the times 0, 30, 60, 90 the final heart-rate sample,
  at index 2, is charged \<open>90 - 60 = 30\<close> seconds, not 1, and the total is
  \<open>30 \<cdot> 1 + 30 \<cdot> 5 + 30 \<cdot> 1 = 210\<close>, not 181.
\<close>

theorem last_sample_charged_a_difference:
  "timeIncrement [0, 30, 60, 90] 2 = 30 \<and>
   spec_charge [100, 160, 100] [0, 30, 60, 90] 2 = 1 \<and>
   map (timeIncrement [0, 30, 60, 90]) [0, 1, 2] \<noteq>
     map (spec_charge [100, 160, 100] [0, 30, 60, 90]) [0, 1, 2] \<and>
   effort_totals (getHeartRateZones 185) [100, 160, 100] [0, 30, 60, 90] =
     (30 * 1 + 30 * 5 + 30 * 1, 30 + 30 + 30) \<and>
   map_option totalPoints (calculateRelativeEffortPoints 2025
     (Some (example_activity 1 3 (Some [0, 30, 60, 90]) [100, 160, 100])) (Some example_athlete)) =
     Some 210 \<and>
   map_option totalPoints (calculateRelativeEffortPoints 2025
     (Some (example_activity 1 3 (Some [0, 30, 60, 90]) [100, 160, 100])) (Some example_athlete)) \<noteq>
     Some (30 * 1 + 30 * 5 + 1 * 1)"
proof -
  have a: "timeIncrement [0, 30, 60, 90] 2 = 30"
    "spec_charge [100, 160, 100] [0, 30, 60, 90] 2 = 1"
    "map (timeIncrement [0, 30, 60, 90]) [0, 1, 2] = [30, 30, 30]"
    "map (spec_charge [100, 160, 100] [0, 30, 60, 90]) [0, 1, 2] = [30, 30, 1]"
    "effort_totals (getHeartRateZones 185) [100, 160, 100] [0, 30, 60, 90] =
       (30 * 1 + 30 * 5 + 30 * 1, 30 + 30 + 30)"
    "map_option totalPoints (calculateRelativeEffortPoints 2025
       (Some (example_activity 1 3 (Some [0, 30, 60, 90]) [100, 160, 100])) (Some example_athlete)) =
       Some 210"
    by code_simp+
  show ?thesis unfolding a by simp
qed


section \<open>The relative effort formula\<close>

text \<open>
  Claim C7, as the code has it. The multipliers of the zones 1 to 5 are 1, 2, 3, 5 and 8;
  the loop sums the weighted charges into \<open>totalEffortPoints\<close> (\<open>W\<close>) and the charges
  into \<open>totalTimeInZones\<close> (\<open>T\<close>). When \<open>T\<close> is positive the score is
  \<^verbatim>\<open>Math.round((W / T) * 3600)\<close> and the intensity factor is \<open>(W / T) / 3\<close> rounded to two
  decimals; otherwise both are 0.
\<close>

theorem relative_effort_formula:
  assumes "streams a = Some s" and "heartrate s = Some h"
    and "birth_year ath = Some y" and "y \<noteq> 0"
  shows "(let zs = getHeartRateZones (calculateMaxHeartRate cy y);
              W = weighted_seconds zs h (time_or_empty s);
              T = classified_seconds h (time_or_empty s)
          in multiplier 1 = 1 \<and> multiplier 2 = 2 \<and> multiplier 3 = 3 \<and>
             multiplier 4 = 5 \<and> multiplier 5 = 8 \<and>
             effort_totals zs h (time_or_empty s) = (W, T) \<and>
             (\<exists>r. calculateRelativeEffortPoints cy (Some a) (Some ath) = Some r \<and>
                  totalPoints r = W \<and>
                  (0 < T \<longrightarrow>
                     relativeScore r = spec_relativeScore W T \<and>
                     relativeScore r =
                       Num (of_int (math_round (fl (fl (of_int W / of_int T) * 3600)))) \<and>
                     intensityFactor r = spec_intensityFactor W T \<and>
                     intensityFactor r =
                       Num (fl (of_int (math_round (fl (fl (fl (of_int W / of_int T) / 3) * 100))) / 100))) \<and>
                  (T \<le> 0 \<longrightarrow> relativeScore r = Num 0 \<and> intensityFactor r = Num 0)))"
  using relative_effort_unfold[OF assms, of cy] multiplier_values
  by (simp add: Let_def effort_totals_sums spec_relativeScore_def spec_intensityFactor_def)

theorem relative_effort_formula_witness:
  "effort_totals (getHeartRateZones 185) [100, 160, 100] [0, 30, 60] = (181, 61) \<and>
   (\<exists>r. calculateRelativeEffortPoints 2025
          (Some (example_activity 1 3 (Some [0, 30, 60]) [100, 160, 100])) (Some example_athlete) = Some r \<and>
        totalPoints r = 181 \<and>
        relativeScore r = Num (of_int (math_round (fl (fl (181 / 61) * 3600)))) \<and>
        intensityFactor r = Num (fl (of_int (math_round (fl (fl (fl (181 / 61) / 3) * 100))) / 100))) \<and>
   effort_totals (getHeartRateZones 185) [0, 0, 0] [0, 30, 60] = (0, 0) \<and>
   (\<exists>r. calculateRelativeEffortPoints 2025
          (Some (example_activity 1 3 (Some [0, 30, 60]) [0, 0, 0])) (Some example_athlete) = Some r \<and>
        totalPoints r = 0 \<and> relativeScore r = Num 0 \<and> intensityFactor r = Num 0)"
proof -
  have h: "streams (example_activity 1 3 (Some [0, 30, 60]) [100, 160, 100]) =
      Some \<lparr> time_stream = Some [0, 30, 60], heartrate = Some [100, 160, 100] \<rparr>"
    "heartrate \<lparr> time_stream = Some [0, 30, 60], heartrate = Some [100, 160, 100] \<rparr> = Some [100, 160, 100]"
    "birth_year example_athlete = Some 1990" "(1990::int) \<noteq> 0"
    by (simp_all add: example_activity_def example_athlete_def)
  have h0: "streams (example_activity 1 3 (Some [0, 30, 60]) [0, 0, 0]) =
      Some \<lparr> time_stream = Some [0, 30, 60], heartrate = Some [0, 0, 0] \<rparr>"
    "heartrate \<lparr> time_stream = Some [0, 30, 60], heartrate = Some [0, 0, 0] \<rparr> = Some [0, 0, 0]"
    "birth_year example_athlete = Some 1990" "(1990::int) \<noteq> 0"
    by (simp_all add: example_activity_def example_athlete_def)
  have e: "weighted_seconds (getHeartRateZones 185) [100, 160, 100] [0, 30, 60] = 181"
    "classified_seconds [100, 160, 100] [0, 30, 60] = 61"
    by (simp_all add: weighted_seconds_def classified_seconds_def timeIncrement_def zone_of_def
        zones_185 multiplier_def the_zoneMultipliers_def)
  have e0: "weighted_seconds (getHeartRateZones 185) [0, 0, 0] [0, 30, 60] = 0"
    "classified_seconds [0, 0, 0] [0, 30, 60] = 0"
    by (simp_all add: weighted_seconds_def classified_seconds_def)
  have A: "effort_totals (getHeartRateZones 185) [100, 160, 100] [0, 30, 60] = (181, 61) \<and>
     (\<exists>r. calculateRelativeEffortPoints 2025
          (Some (example_activity 1 3 (Some [0, 30, 60]) [100, 160, 100])) (Some example_athlete) = Some r \<and>
        totalPoints r = 181 \<and>
        relativeScore r = Num (of_int (math_round (fl (fl (181 / 61) * 3600)))) \<and>
        intensityFactor r = Num (fl (of_int (math_round (fl (fl (fl (181 / 61) / 3) * 100))) / 100)))"
    using relative_effort_formula[OF h, of 2025] e
    by (auto simp add: Let_def calculateMaxHeartRate_def time_or_empty_def)
  have B: "effort_totals (getHeartRateZones 185) [0, 0, 0] [0, 30, 60] = (0, 0) \<and>
     (\<exists>r. calculateRelativeEffortPoints 2025
          (Some (example_activity 1 3 (Some [0, 30, 60]) [0, 0, 0])) (Some example_athlete) = Some r \<and>
        totalPoints r = 0 \<and> relativeScore r = Num 0 \<and> intensityFactor r = Num 0)"
    using relative_effort_formula[OF h0, of 2025] e0
    by (auto simp add: Let_def calculateMaxHeartRate_def time_or_empty_def)
  show ?thesis using A B by blast
qed

text \<open>
  The claim as stated fails when no time is classified. For a heart-rate stream of zeros
  the totals are 0 and 0: the code returns the score 0, whereas
  \<open>round(totalEffortPoints / totalClassifiedSeconds \<times> 3600)\<close> divides zero by zero and is
  \<^verbatim>\<open>NaN\<close>.
\<close>

theorem relative_score_without_classified_time:
  "map_option relativeScore (calculateRelativeEffortPoints 2025
      (Some (example_activity 1 3 (Some [0, 30, 60]) [0, 0, 0])) (Some example_athlete)) = Some (Num 0) \<and>
   effort_totals (getHeartRateZones 185) [0, 0, 0] [0, 30, 60] = (0, 0) \<and>
   spec_relativeScore 0 0 = NaN"
  by code_simp


section \<open>The output of the zone time distribution\<close>

text \<open>
  Claim C2, as the code has it. Every item of the output carries the seconds of its zone
  divided by 60 and rounded, and the percentage \<^verbatim>\<open>Math.round((seconds / denominator) * 100)\<close>
  where the denominator is the last value of the time stream, or 1 when the stream is
  empty or ends with 0: a share of the elapsed time, not of the classified time. The
  filter tests the rounded minutes, so the output lists, in the order of the zones,
  exactly the zones that have at least 30 seconds.
\<close>

theorem zone_distribution_output:
  assumes "streams a = Some s" and "heartrate s = Some h"
    and "birth_year ath = Some y" and "y \<noteq> 0"
  shows "(let zs = getHeartRateZones (calculateMaxHeartRate cy y);
              t = time_or_empty s;
              seconds = zone_seconds zs h t;
              denominator = last_time_or_1 t;
              item = (\<lambda>k.
                \<lparr> item_zone = zone_name (nth_zone zs k),
                  item_time = Num (of_int (math_round (fl (of_int (seconds k) / 60)))),
                  item_percentage =
                    Num (of_int (math_round
                      (fl (fl (of_int (seconds k) / of_int denominator) * 100)))),
                  item_color = zone_color (nth_zone zs k) \<rparr>)
          in (\<forall>k\<in>{1..5}. counter_time (counter (zone_times zs h t) k) = seconds k) \<and>
             denominator = (if t = [] \<or> last t = 0 then 1 else last t) \<and>
             getHeartRateZoneDistribution cy (Some a) (Some ath) =
               map item (filter (\<lambda>k. 30 \<le> seconds k) [1, 2, 3, 4, 5]))"
proof -
  define zs where "zs = getHeartRateZones (calculateMaxHeartRate cy y)"
  define t where "t = time_or_empty s"
  define item where "item = (\<lambda>k.
    \<lparr> item_zone = zone_name (nth_zone zs k),
      item_time = Num (of_int (math_round (fl (of_int (zone_seconds zs h t k) / 60)))),
      item_percentage =
        Num (of_int (math_round
          (fl (fl (of_int (zone_seconds zs h t k) / of_int (last_time_or_1 t)) * 100)))),
      item_color = zone_color (nth_zone zs k) \<rparr>)"
  have c: "\<forall>k\<in>{1..5}. counter_time (counter (zone_times zs h t) k) = zone_seconds zs h t k"
    using zone_times_time[of _ zs h t] by simp
  have d: "last_time_or_1 t = (if t = [] \<or> last t = 0 then 1 else last t)"
    by (simp add: last_time_or_1_def)
  have i: "chart_item t (counter (zone_times zs h t) k) = item k" if "k \<in> set [1, 2, 3, 4, 5]" for k
  proof -
    from that have "1 \<le> k" "k \<le> 5" by auto
    then show ?thesis
      by (simp add: chart_item_finite zone_times_counter item_def)
  qed
  have p: "js_positive (item_time (item k)) = (30 \<le> zone_seconds zs h t k)" for k
    using minutes_positive_iff[of "zone_seconds zs h t k"] by (simp add: item_def)
  have "getHeartRateZoneDistribution cy (Some a) (Some ath) =
      filter (\<lambda>item. js_positive (item_time item))
        (map (chart_item t) (map (counter (zone_times zs h t)) [1, 2, 3, 4, 5]))"
    using zone_distribution_unfold[OF assms, of cy]
    by (simp only: Let_def zs_def t_def entries_counters)
  also have "map (chart_item t) (map (counter (zone_times zs h t)) [1, 2, 3, 4, 5]) =
      map item [1, 2, 3, 4, 5]"
    unfolding map_map by (rule map_cong[OF refl]) (simp only: o_apply i)
  also have "filter (\<lambda>item. js_positive (item_time item)) (map item [1, 2, 3, 4, 5]) =
      map item (filter (\<lambda>k. 30 \<le> zone_seconds zs h t k) [1, 2, 3, 4, 5])"
    unfolding filter_map o_def p ..
  finally show ?thesis
    unfolding Let_def zs_def[symmetric] t_def[symmetric] item_def[symmetric]
    using c d by blast
qed

theorem zone_distribution_output_witness:
  "getHeartRateZoneDistribution 2025
     (Some (example_activity 1 3 (Some [0, 30, 45]) [100, 160, 100])) (Some example_athlete) =
   [\<lparr> item_zone = ''Recovery (Zone 1)'', item_time = Num 1, item_percentage = Num 69,
      item_color = ''#4FC3F7'' \<rparr>]"
proof -
  have h: "streams (example_activity 1 3 (Some [0, 30, 45]) [100, 160, 100]) =
      Some \<lparr> time_stream = Some [0, 30, 45], heartrate = Some [100, 160, 100] \<rparr>"
    "heartrate \<lparr> time_stream = Some [0, 30, 45], heartrate = Some [100, 160, 100] \<rparr> = Some [100, 160, 100]"
    "birth_year example_athlete = Some 1990" "(1990::int) \<noteq> 0"
    by (simp_all add: example_activity_def example_athlete_def)
  have z: "zone_seconds (getHeartRateZones 185) [100, 160, 100] [0, 30, 45] =
      (\<lambda>k. if k = 1 then 31 else if k = 4 then 15 else 0)"
    by (rule ext) (simp add: zone_seconds_def timeIncrement_def zone_of_def zones_185)
  show ?thesis
    using zone_distribution_output[OF h, of 2025]
    by (simp add: Let_def calculateMaxHeartRate_def time_or_empty_def z last_time_or_1_def
        zone_labels example_rounding)
qed

text \<open>
  The claim as stated fails for the samples 100, 160, 100 at the times 0, 30, 45. Zone 1
  has 31 seconds and zone 4 has 15 seconds, 46 classified seconds in all. The percentage
  of zone 1 is 69 (31 of the 45 seconds elapsed), not \<open>round(31 / 46 \<times> 100) = 67\<close>, and
  zone 4 is omitted although its time is not zero.
\<close>

theorem zone_percentage_not_share_of_classified_time:
  "getHeartRateZoneDistribution 2025
     (Some (example_activity 1 3 (Some [0, 30, 45]) [100, 160, 100])) (Some example_athlete) =
   [\<lparr> item_zone = ''Recovery (Zone 1)'', item_time = Num 1, item_percentage = Num 69,
      item_color = ''#4FC3F7'' \<rparr>] \<and>
   map (\<lambda>k. counter_time (counter (zone_times (getHeartRateZones 185) [100, 160, 100] [0, 30, 45]) k))
     [1, 2, 3, 4, 5] = [31, 0, 0, 15, 0] \<and>
   snd (effort_totals (getHeartRateZones 185) [100, 160, 100] [0, 30, 45]) = 46 \<and>
   spec_percentage 31 46 = Num 67"
  by code_simp


section \<open>A time stream that is absent or shorter than the heart-rate stream\<close>

lemma relative_effort_record:
  assumes "streams a = Some s" and "heartrate s = Some h"
    and "birth_year ath = Some y" and "y \<noteq> 0"
  shows "calculateRelativeEffortPoints cy (Some a) (Some ath) =
     Some \<lparr> totalPoints =
               weighted_seconds (getHeartRateZones (calculateMaxHeartRate cy y)) h (time_or_empty s),
             relativeScore =
               (if 0 < classified_seconds h (time_or_empty s)
                then Num (of_int (math_round (fl (fl
                  (of_int (weighted_seconds (getHeartRateZones (calculateMaxHeartRate cy y)) h
                     (time_or_empty s)) /
                   of_int (classified_seconds h (time_or_empty s))) * 3600))))
                else Num 0),
             intensityFactor =
               (if 0 < classified_seconds h (time_or_empty s)
                then Num (fl (of_int (math_round (fl (fl (fl
                  (of_int (weighted_seconds (getHeartRateZones (calculateMaxHeartRate cy y)) h
                     (time_or_empty s)) /
                   of_int (classified_seconds h (time_or_empty s))) / 3) * 100))) / 100))
                else Num 0),
             timeInZones =
               Num (of_int (math_round (fl (of_int (classified_seconds h (time_or_empty s)) / 60)))),
             res_zoneMultipliers = the_zoneMultipliers \<rparr>"
  using relative_effort_unfold[OF assms, of cy] by (simp add: Let_def)

text \<open>
  Claim C10. With a heart-rate stream and a birth year, both functions return whatever the
  time stream is. An absent time stream counts as empty. Every sample at an index
  \<open>\<ge> len(time) - 1\<close> is charged 1 second, and below that index both reads of the time
  stream are in range. What the two functions return is determined by these charges: the
  seconds of the zone \<open>k\<close> are the sum of the charges of the positive samples of that
  zone, \<open>W\<close> is the sum of the charges weighted with the multipliers and \<open>T\<close> the sum of
  the charges; the zone distribution lists the zones that have at least 30 seconds, with
  their minutes and their percentage of the denominator, and the relative effort is the
  record formed of \<open>W\<close> and \<open>T\<close>, with the score and the intensity factor 0 when \<open>T\<close> is
  not positive. The denominator of the percentages is the last time value, or 1 when the
  time stream is empty or ends with 0, so it is never 0. With an empty time stream every
  zone has as many seconds as it has positive samples. All numbers returned are finite.
\<close>

theorem missing_time_stream:
  assumes "streams a = Some s" and "heartrate s = Some h"
    and "birth_year ath = Some y" and "y \<noteq> 0"
  shows "(let zs = getHeartRateZones (calculateMaxHeartRate cy y);
              t = time_or_empty s;
              seconds = (\<lambda>k. \<Sum>i<length h.
                 if 0 < h ! i \<and> zone_of zs (h ! i) = k
                 then (if int i < int (length t) - 1 then t ! (i + 1) - t ! i else 1) else 0);
              W = (\<Sum>i<length h.
                 if 0 < h ! i
                 then (if int i < int (length t) - 1 then t ! (i + 1) - t ! i else 1) *
                      multiplier (zone_of zs (h ! i))
                 else 0);
              T = (\<Sum>i<length h.
                 if 0 < h ! i
                 then (if int i < int (length t) - 1 then t ! (i + 1) - t ! i else 1) else 0);
              denominator = (if t = [] \<or> last t = 0 then 1 else last t)
          in (time_stream s = None \<longrightarrow> t = []) \<and>
             (\<forall>i<length h. int (length t) - 1 \<le> int i \<longrightarrow> timeIncrement t i = 1) \<and>
             (\<forall>i<length h. int i < int (length t) - 1 \<longrightarrow>
                i + 1 < length t \<and> timeIncrement t i = t ! (i + 1) - t ! i) \<and>
             (t = [] \<longrightarrow> denominator = 1) \<and>
             denominator \<noteq> 0 \<and>
             (\<forall>k\<in>{1..5}. counter_time (counter (zone_times zs h t) k) = seconds k) \<and>
             effort_totals zs h t = (W, T) \<and>
             (t = [] \<longrightarrow>
                (\<forall>k\<in>{1..5}. counter_time (counter (zone_times zs h t) k) =
                   (\<Sum>i<length h. if 0 < h ! i \<and> zone_of zs (h ! i) = k then 1 else 0)) \<and>
                effort_totals zs h t =
                  ((\<Sum>i<length h. if 0 < h ! i then multiplier (zone_of zs (h ! i)) else 0),
                   (\<Sum>i<length h. if 0 < h ! i then 1 else 0))) \<and>
             getHeartRateZoneDistribution cy (Some a) (Some ath) =
               map (\<lambda>k.
                  \<lparr> item_zone = zone_name (nth_zone zs k),
                    item_time = Num (of_int (math_round (fl (of_int (seconds k) / 60)))),
                    item_percentage =
                      Num (of_int (math_round
                        (fl (fl (of_int (seconds k) / of_int denominator) * 100)))),
                    item_color = zone_color (nth_zone zs k) \<rparr>)
                 (filter (\<lambda>k. 30 \<le> seconds k) [1, 2, 3, 4, 5]) \<and>
             (\<forall>item\<in>set (getHeartRateZoneDistribution cy (Some a) (Some ath)).
                is_finite (item_time item) \<and> is_finite (item_percentage item)) \<and>
             calculateRelativeEffortPoints cy (Some a) (Some ath) =
               Some \<lparr> totalPoints = W,
                       relativeScore =
                         (if 0 < T
                          then Num (of_int (math_round (fl (fl (of_int W / of_int T) * 3600))))
                          else Num 0),
                       intensityFactor =
                         (if 0 < T
                          then Num (fl (of_int (math_round
                                 (fl (fl (fl (of_int W / of_int T) / 3) * 100))) / 100))
                          else Num 0),
                       timeInZones = Num (of_int (math_round (fl (of_int T / 60)))),
                       res_zoneMultipliers = the_zoneMultipliers \<rparr> \<and>
             (\<exists>r. calculateRelativeEffortPoints cy (Some a) (Some ath) = Some r \<and>
                  is_finite (relativeScore r) \<and> is_finite (intensityFactor r) \<and>
                  is_finite (timeInZones r)))"
proof -
  define zs where "zs = getHeartRateZones (calculateMaxHeartRate cy y)"
  define t where "t = time_or_empty s"
  have d: "(if t = [] \<or> last t = 0 then 1 else last t) = last_time_or_1 t"
    by (simp add: last_time_or_1_def)
  have 1: "time_stream s = None \<longrightarrow> t = []" by (simp add: t_def time_or_empty_def)
  have 2: "\<forall>i<length h. int (length t) - 1 \<le> int i \<longrightarrow> timeIncrement t i = 1"
    by (simp add: timeIncrement_fallback)
  have 3: "\<forall>i<length h. int i < int (length t) - 1 \<longrightarrow>
      i + 1 < length t \<and> timeIncrement t i = t ! (i + 1) - t ! i"
    by (auto simp add: timeIncrement_def)
  have 4: "t = [] \<longrightarrow> last_time_or_1 t = 1" by (simp add: last_time_or_1_def)
  have 5: "last_time_or_1 t \<noteq> 0" by (rule last_time_or_1_nonzero)
  have 6: "\<forall>k\<in>{1..5}. counter_time (counter (zone_times zs h t) k) = zone_seconds zs h t k"
    using zone_times_time[of _ zs h t] by simp
  have 7: "effort_totals zs h t = (weighted_seconds zs h t, classified_seconds h t)"
    by (rule effort_totals_sums)
  have 8: "t = [] \<longrightarrow>
      (\<forall>k\<in>{1..5}. counter_time (counter (zone_times zs h t) k) =
         (\<Sum>i<length h. if 0 < h ! i \<and> zone_of zs (h ! i) = k then 1 else 0)) \<and>
      effort_totals zs h t =
        ((\<Sum>i<length h. if 0 < h ! i then multiplier (zone_of zs (h ! i)) else 0),
         (\<Sum>i<length h. if 0 < h ! i then 1 else 0))"
  proof
    assume e: "t = []"
    have inc: "timeIncrement t i = 1" for i by (simp add: e timeIncrement_def)
    have "\<forall>k\<in>{1..5}. counter_time (counter (zone_times zs h t) k) =
         (\<Sum>i<length h. if 0 < h ! i \<and> zone_of zs (h ! i) = k then 1 else 0)"
      using zone_times_time[of _ zs h t] by (simp add: zone_seconds_def inc cong: if_cong)
    moreover have "effort_totals zs h t =
        ((\<Sum>i<length h. if 0 < h ! i then multiplier (zone_of zs (h ! i)) else 0),
         (\<Sum>i<length h. if 0 < h ! i then 1 else 0))"
      by (simp add: effort_totals_sums weighted_seconds_def classified_seconds_def inc cong: if_cong)
    ultimately show "(\<forall>k\<in>{1..5}. counter_time (counter (zone_times zs h t) k) =
         (\<Sum>i<length h. if 0 < h ! i \<and> zone_of zs (h ! i) = k then 1 else 0)) \<and>
      effort_totals zs h t =
        ((\<Sum>i<length h. if 0 < h ! i then multiplier (zone_of zs (h ! i)) else 0),
         (\<Sum>i<length h. if 0 < h ! i then 1 else 0))" by blast
  qed
  have 9: "getHeartRateZoneDistribution cy (Some a) (Some ath) =
      map (\<lambda>k.
        \<lparr> item_zone = zone_name (nth_zone zs k),
          item_time = Num (of_int (math_round (fl (of_int (zone_seconds zs h t k) / 60)))),
          item_percentage =
            Num (of_int (math_round
              (fl (fl (of_int (zone_seconds zs h t k) / of_int (last_time_or_1 t)) * 100)))),
          item_color = zone_color (nth_zone zs k) \<rparr>)
       (filter (\<lambda>k. 30 \<le> zone_seconds zs h t k) [1, 2, 3, 4, 5])"
    unfolding zs_def t_def by (rule zone_distribution_items[OF assms])
  have 10: "\<forall>item\<in>set (getHeartRateZoneDistribution cy (Some a) (Some ath)).
      is_finite (item_time item) \<and> is_finite (item_percentage item)"
    using zone_distribution_unfold[OF assms, of cy]
    by (auto simp add: Let_def chart_item_finite)
  have 11: "calculateRelativeEffortPoints cy (Some a) (Some ath) =
     Some \<lparr> totalPoints = weighted_seconds zs h t,
             relativeScore =
               (if 0 < classified_seconds h t
                then Num (of_int (math_round (fl (fl
                  (of_int (weighted_seconds zs h t) / of_int (classified_seconds h t)) * 3600))))
                else Num 0),
             intensityFactor =
               (if 0 < classified_seconds h t
                then Num (fl (of_int (math_round (fl (fl (fl
                  (of_int (weighted_seconds zs h t) / of_int (classified_seconds h t)) / 3) * 100))) / 100))
                else Num 0),
             timeInZones = Num (of_int (math_round (fl (of_int (classified_seconds h t) / 60)))),
             res_zoneMultipliers = the_zoneMultipliers \<rparr>"
    unfolding zs_def t_def by (rule relative_effort_record[OF assms])
  have 12: "\<exists>r. calculateRelativeEffortPoints cy (Some a) (Some ath) = Some r \<and>
      is_finite (relativeScore r) \<and> is_finite (intensityFactor r) \<and> is_finite (timeInZones r)"
    using relative_effort_unfold[OF assms, of cy] by (simp add: Let_def)
  show ?thesis
    unfolding Let_def zs_def[symmetric] t_def[symmetric] timeIncrement_def[symmetric] d
      zone_seconds_def[symmetric] weighted_seconds_def[symmetric] classified_seconds_def[symmetric]
    using 1 2 3 4 5 6 7 8 9 10 11 12 by blast
qed


lemma example_shorter_time_stream:
  "map (\<lambda>k. counter_time (counter (zone_times (getHeartRateZones 185) [100, 160, 100] [0, 30]) k))
     [1, 2, 3, 4, 5] = [30 + 1, 0, 0, 1, 0]"
  "effort_totals (getHeartRateZones 185) [100, 160, 100] [0, 30] = (30 * 1 + 1 * 5 + 1 * 1, 30 + 1 + 1)"
  "getHeartRateZoneDistribution 2025
     (Some (example_activity 1 3 (Some [0, 30]) [100, 160, 100])) (Some example_athlete) =
     [\<lparr> item_zone = ''Recovery (Zone 1)'', item_time = Num 1, item_percentage = Num 103,
        item_color = ''#4FC3F7'' \<rparr>]"
  "map_option (\<lambda>r. (totalPoints r, relativeScore r, timeInZones r))
     (calculateRelativeEffortPoints 2025
       (Some (example_activity 1 3 (Some [0, 30]) [100, 160, 100])) (Some example_athlete)) =
     Some (36, Num 4050, Num 1)"
  "map_option totalPoints
     (calculateRelativeEffortPoints 2025
       (Some (example_activity 1 3 None [100, 160, 100])) (Some example_athlete)) = Some 7"
  by code_simp+

theorem missing_time_stream_witness:
  "time_or_empty \<lparr> time_stream = None, heartrate = Some [100, 160, 100] \<rparr> = [] \<and>
   effort_totals (getHeartRateZones 185) [100, 160, 100] [] = (1 + 5 + 1, 1 + 1 + 1) \<and>
   last_time_or_1 [] = 1 \<and>
   (\<exists>r. calculateRelativeEffortPoints 2025
          (Some (example_activity 1 3 None [100, 160, 100])) (Some example_athlete) = Some r \<and>
        is_finite (relativeScore r) \<and> is_finite (intensityFactor r) \<and> is_finite (timeInZones r)) \<and>
   map_option totalPoints
     (calculateRelativeEffortPoints 2025
       (Some (example_activity 1 3 None [100, 160, 100])) (Some example_athlete)) = Some 7 \<and>
   map (timeIncrement [0, 30]) [0, 1, 2] = [30, 1, 1] \<and>
   map (\<lambda>k. counter_time (counter (zone_times (getHeartRateZones 185) [100, 160, 100] [0, 30]) k))
     [1, 2, 3, 4, 5] = [30 + 1, 0, 0, 1, 0] \<and>
   effort_totals (getHeartRateZones 185) [100, 160, 100] [0, 30] =
     (30 * 1 + 1 * 5 + 1 * 1, 30 + 1 + 1) \<and>
   getHeartRateZoneDistribution 2025
     (Some (example_activity 1 3 (Some [0, 30]) [100, 160, 100])) (Some example_athlete) =
     [\<lparr> item_zone = ''Recovery (Zone 1)'', item_time = Num 1, item_percentage = Num 103,
        item_color = ''#4FC3F7'' \<rparr>] \<and>
   map (\<lambda>item. (is_finite (item_time item), is_finite (item_percentage item)))
     (getHeartRateZoneDistribution 2025
       (Some (example_activity 1 3 (Some [0, 30]) [100, 160, 100])) (Some example_athlete)) =
     [(True, True)] \<and>
   map_option (\<lambda>r. (totalPoints r, relativeScore r, timeInZones r))
     (calculateRelativeEffortPoints 2025
       (Some (example_activity 1 3 (Some [0, 30]) [100, 160, 100])) (Some example_athlete)) =
     Some (36, Num 4050, Num 1)"
proof -
  have h1: "streams (example_activity 1 3 None [100, 160, 100]) =
      Some \<lparr> time_stream = None, heartrate = Some [100, 160, 100] \<rparr>"
    "heartrate \<lparr> time_stream = None, heartrate = Some [100, 160, 100] \<rparr> = Some [100, 160, 100]"
    "birth_year example_athlete = Some 1990" "(1990::int) \<noteq> 0"
    by (simp_all add: example_activity_def example_athlete_def)
  have h2: "streams (example_activity 1 3 (Some [0, 30]) [100, 160, 100]) =
      Some \<lparr> time_stream = Some [0, 30], heartrate = Some [100, 160, 100] \<rparr>"
    "heartrate \<lparr> time_stream = Some [0, 30], heartrate = Some [100, 160, 100] \<rparr> = Some [100, 160, 100]"
    "birth_year example_athlete = Some 1990" "(1990::int) \<noteq> 0"
    by (simp_all add: example_activity_def example_athlete_def)
  note d = example_shorter_time_stream
  have i: "map (timeIncrement [0, 30]) [0, 1, 2] = [30, 1, 1]"
    by (simp add: timeIncrement_def)
  have e: "time_or_empty \<lparr> time_stream = None, heartrate = Some [100, 160, 100] \<rparr> = []"
    "last_time_or_1 [] = 1"
    by (simp_all add: time_or_empty_def last_time_or_1_def)
  have t: "effort_totals (getHeartRateZones 185) [100, 160, 100] [] = (1 + 5 + 1, 1 + 1 + 1)"
    by code_simp
  have A: "\<exists>r. calculateRelativeEffortPoints 2025
          (Some (example_activity 1 3 None [100, 160, 100])) (Some example_athlete) = Some r \<and>
        is_finite (relativeScore r) \<and> is_finite (intensityFactor r) \<and> is_finite (timeInZones r)"
    using missing_time_stream[OF h1, of 2025] unfolding Let_def by blast
  have B: "\<forall>item\<in>set (getHeartRateZoneDistribution 2025
       (Some (example_activity 1 3 (Some [0, 30]) [100, 160, 100])) (Some example_athlete)).
      is_finite (item_time item) \<and> is_finite (item_percentage item)"
    using missing_time_stream[OF h2, of 2025] unfolding Let_def by blast
  have C: "map (\<lambda>item. (is_finite (item_time item), is_finite (item_percentage item)))
     (getHeartRateZoneDistribution 2025
       (Some (example_activity 1 3 (Some [0, 30]) [100, 160, 100])) (Some example_athlete)) =
     [(True, True)]"
    using B by (simp add: d(3))
  show ?thesis using A C d i e t by blast
qed


section \<open>Cohort comparison: order and position\<close>






lemma length_insert_sorted: "length (insert_sorted cmp x ys) = Suc (length ys)"
  by (induction ys) auto


lemma length_array_sort: "length (array_sort cmp xs) = length xs"
  unfolding array_sort_def by (induction xs) (simp_all add: length_insert_sorted)









text \<open>
  Claim C3. The subject is the only cached activity of its month, so the comparison list
  has exactly one member, in every locale. The position is rendered all the same (the
  list is not empty), and the percentile is computed as
  \<^verbatim>\<open>Math.round(((1 - 1) / (1 - 1)) * 100)\<close>: a division of zero by zero, whose result
  \<^verbatim>\<open>NaN\<close> is displayed.
\<close>

theorem single_member_percentile_NaN:
  "\<forall>localeTime. map_option renderPosition
     (loadComparisonData 2025 localeTime Month
        (Some (example_activity 1 3 (Some [0, 30, 60]) [100, 160, 100]))
        (Some example_athlete) [example_cached 1 3] no_detail) =
   Some (Some \<lparr> pos_rank = 1, pos_total = 1, pos_percentile = NaN \<rparr>)"
  by (intro allI) code_simp


section \<open>Bulk stream backfill: order, progress and counts\<close>

lemma fetch_loop_effect:
  "i \<le> length acts \<Longrightarrow>
   fetch_loop g acts i st =
     \<lparr> successCount = successCount st + length (filter (\<lambda>a. \<not> isl (g (act_id a))) (drop i acts)),
       errorCount = errorCount st + length (filter (\<lambda>a. isl (g (act_id a))) (drop i acts)),
       log = log st @ concat (map (item_events g (length acts)) (drop i (enumerate 0 acts))) \<rparr>"
proof (induction g acts i st rule: fetch_loop.induct)
  case (1 g acts i st)
  show ?case
  proof (cases "i < length acts")
    case False
    with "1.prems" have "i = length acts" by simp
    then show ?thesis by (subst fetch_loop.simps) simp
  next
    case True
    then have d: "drop i acts = acts ! i # drop (Suc i) acts"
      by (simp add: Cons_nth_drop_Suc)
    from True have e: "drop i (enumerate 0 acts) = (i, acts ! i) # drop (Suc i) (enumerate 0 acts)"
      by (simp add: Cons_nth_drop_Suc[symmetric] nth_enumerate_eq)
    show ?thesis
    proof (cases "g (act_id (acts ! i))")
      case (Inl err)
      define st' where "st' =
        (emit (ConsoleError (act_id (acts ! i)))
          (emit (GetActivityDetail (act_id (acts ! i)))
            (emit (SetStreamProgress (i + 1) (length acts)) st)))
        \<lparr> errorCount := errorCount
          (emit (ConsoleError (act_id (acts ! i)))
            (emit (GetActivityDetail (act_id (acts ! i)))
              (emit (SetStreamProgress (i + 1) (length acts)) st))) + 1 \<rparr>"
      have step: "fetch_loop g acts i st = fetch_loop g acts (i + 1) st'"
        by (subst fetch_loop.simps) (simp add: True Inl Let_def st'_def)
      have ih: "fetch_loop g acts (i + 1) st' =
         \<lparr> successCount = successCount st' + length (filter (\<lambda>a. \<not> isl (g (act_id a))) (drop (i + 1) acts)),
           errorCount = errorCount st' + length (filter (\<lambda>a. isl (g (act_id a))) (drop (i + 1) acts)),
           log = log st' @ concat (map (item_events g (length acts)) (drop (i + 1) (enumerate 0 acts))) \<rparr>"
        using "1.IH"(1)[OF True refl refl refl Inl refl refl, folded st'_def] True by simp
      have fields: "successCount st' = successCount st" "errorCount st' = errorCount st + 1"
        "log st' = log st @ item_events g (length acts) (i, acts ! i)"
        by (simp_all add: st'_def emit_def item_events_def Inl)
      show ?thesis unfolding step ih by (simp add: fields d e Inl)
    next
      case (Inr detail)
      define st' where "st' =
        (if int i < int (length acts) - 1
         then emit (Delay 200)
           ((emit (GetActivityDetail (act_id (acts ! i)))
              (emit (SetStreamProgress (i + 1) (length acts)) st))
            \<lparr> successCount := successCount
              (emit (GetActivityDetail (act_id (acts ! i)))
                (emit (SetStreamProgress (i + 1) (length acts)) st)) + 1 \<rparr>)
         else (emit (GetActivityDetail (act_id (acts ! i)))
              (emit (SetStreamProgress (i + 1) (length acts)) st))
            \<lparr> successCount := successCount
              (emit (GetActivityDetail (act_id (acts ! i)))
                (emit (SetStreamProgress (i + 1) (length acts)) st)) + 1 \<rparr>)"
      have step: "fetch_loop g acts i st = fetch_loop g acts (i + 1) st'"
        by (subst fetch_loop.simps) (simp add: True Inr Let_def st'_def)
      have ih: "fetch_loop g acts (i + 1) st' =
         \<lparr> successCount = successCount st' + length (filter (\<lambda>a. \<not> isl (g (act_id a))) (drop (i + 1) acts)),
           errorCount = errorCount st' + length (filter (\<lambda>a. isl (g (act_id a))) (drop (i + 1) acts)),
           log = log st' @ concat (map (item_events g (length acts)) (drop (i + 1) (enumerate 0 acts))) \<rparr>"
        using "1.IH"(2)[OF True refl refl refl Inr refl refl, folded st'_def] True by simp
      have fields: "successCount st' = successCount st + 1" "errorCount st' = errorCount st"
        "log st' = log st @ item_events g (length acts) (i, acts ! i)"
        by (simp_all add: st'_def emit_def item_events_def Inr)
      show ?thesis unfolding step ih by (simp add: fields d e Inr)
    qed
  qed
qed

lemma item_events_fetch:
  "filter is_fetch (item_events g n (i, a)) = [GetActivityDetail (act_id a)]"
  by (simp add: item_events_def split: sum.splits)

lemma item_events_progress:
  "filter is_progress (item_events g n (i, a)) = [SetStreamProgress (i + 1) n]"
  by (simp add: item_events_def split: sum.splits)

lemma concat_map_enumerate_snd:
  "concat (map (\<lambda>p. [f (snd p)]) (enumerate k xs)) = map f xs"
proof -
  have "concat (map (\<lambda>p. [f (snd p)]) (enumerate k xs)) = map (\<lambda>p. f (snd p)) (enumerate k xs)"
    by simp
  also have "\<dots> = map f (map snd (enumerate k xs))" by (simp only: map_map comp_def)
  also have "\<dots> = map f xs" by (simp only: map_snd_enumerate)
  finally show ?thesis .
qed

lemma concat_map_enumerate_fst:
  "concat (map (\<lambda>p. [f (fst p)]) (enumerate k xs)) = map f [k..<k + length xs]"
proof -
  have "concat (map (\<lambda>p. [f (fst p)]) (enumerate k xs)) = map (\<lambda>p. f (fst p)) (enumerate k xs)"
    by simp
  also have "\<dots> = map f (map fst (enumerate k xs))" by (simp only: map_map comp_def)
  also have "\<dots> = map f [k..<k + length xs]" by (simp only: map_fst_enumerate)
  finally show ?thesis .
qed

lemma log_fetches:
  "filter is_fetch (concat (map (item_events g n) (enumerate 0 acts))) =
   map (\<lambda>a. GetActivityDetail (act_id a)) acts"
proof -
  have "filter is_fetch (item_events g n p) = [GetActivityDetail (act_id (snd p))]" for p
    using item_events_fetch[of g n "fst p" "snd p"] by simp
  then have "filter is_fetch (concat (map (item_events g n) (enumerate 0 acts))) =
      concat (map (\<lambda>p. [GetActivityDetail (act_id (snd p))]) (enumerate 0 acts))"
    by (simp add: filter_concat o_def)
  also have "\<dots> = map (\<lambda>a. GetActivityDetail (act_id a)) acts"
    by (rule concat_map_enumerate_snd)
  finally show ?thesis .
qed

lemma log_progress:
  "filter is_progress (concat (map (item_events g n) (enumerate 0 acts))) =
   map (\<lambda>i. SetStreamProgress (i + 1) n) [0..<length acts]"
proof -
  have "filter is_progress (item_events g n p) = [SetStreamProgress (fst p + 1) n]" for p
    using item_events_progress[of g n "fst p" "snd p"] by simp
  then have "filter is_progress (concat (map (item_events g n) (enumerate 0 acts))) =
      concat (map (\<lambda>p. [SetStreamProgress (fst p + 1) n]) (enumerate 0 acts))"
    by (simp add: filter_concat o_def)
  also have "\<dots> = map (\<lambda>i. SetStreamProgress (i + 1) n) [0..<0 + length acts]"
    by (rule concat_map_enumerate_fst)
  finally show ?thesis by simp
qed

lemma backfill_unfold:
  assumes "isAuthenticated" and "\<not> loadingStreams"
  shows "fetchAllStreamData isAuthenticated loadingStreams filteredActivities activities g =
     (let acts = (if length filteredActivities > 0 then filteredActivities else activities);
          ok = length (filter (\<lambda>a. \<not> isl (g (act_id a))) acts);
          failed = length (filter (\<lambda>a. isl (g (act_id a))) acts)
      in Some \<lparr> successCount = ok, errorCount = failed,
                 log = [SetLoadingStreams True, SetError None, SetStreamProgress 0 (length acts)] @
                       concat (map (item_events g (length acts)) (enumerate 0 acts)) @
                       [Alert (failed = 0) ok failed, SetLoadingStreams False,
                        SetStreamProgress 0 0] \<rparr>)"
  using assms
  by (simp add: fetchAllStreamData_def Let_def emit_def fetch_loop_effect)

text \<open>
  Claim C9, as the code has it. When the backfill runs (the user is authenticated and no
  backfill is in progress), it takes the filtered activities if there are any and all
  activities otherwise, and fetches the detail of every item, once, in the given order: no
  failure ends the loop. The progress \<open>(i + 1, total)\<close> is set right before the fetch of
  the item at index \<open>i\<close>, so \<open>current\<close> runs from 1 to \<open>total\<close>; before the loop the
  progress is set to \<open>(0, total)\<close> and at the end it is reset to \<open>(0, 0)\<close>. A failed
  fetch is counted as an error, every other one as a success, and the two counts, shown
  in the final alert, add up to the number of items.
\<close>

theorem bulk_backfill:
  assumes "isAuthenticated" and "\<not> loadingStreams"
  shows "(let activitiesToProcess =
                (if length filteredActivities > 0 then filteredActivities else activities);
              total = length activitiesToProcess
          in \<exists>st. fetchAllStreamData isAuthenticated loadingStreams filteredActivities activities
                     getActivityDetail = Some st \<and>
               successCount st =
                 length (filter (\<lambda>a. \<not> isl (getActivityDetail (act_id a))) activitiesToProcess) \<and>
               errorCount st =
                 length (filter (\<lambda>a. isl (getActivityDetail (act_id a))) activitiesToProcess) \<and>
               successCount st + errorCount st = total \<and>
               log st =
                 [SetLoadingStreams True, SetError None, SetStreamProgress 0 total] @
                 concat (map (item_events getActivityDetail total) (enumerate 0 activitiesToProcess)) @
                 [Alert (errorCount st = 0) (successCount st) (errorCount st),
                  SetLoadingStreams False, SetStreamProgress 0 0] \<and>
               filter is_fetch (log st) =
                 map (\<lambda>a. GetActivityDetail (act_id a)) activitiesToProcess \<and>
               filter is_progress (log st) =
                 SetStreamProgress 0 total #
                 map (\<lambda>i. SetStreamProgress (i + 1) total) [0..<total] @ [SetStreamProgress 0 0])"
proof -
  define acts where "acts = (if length filteredActivities > 0 then filteredActivities else activities)"
  have sum: "length (filter (\<lambda>a. \<not> isl (getActivityDetail (act_id a))) acts) +
      length (filter (\<lambda>a. isl (getActivityDetail (act_id a))) acts) = length acts"
    using sum_length_filter_compl[of "\<lambda>a. isl (getActivityDetail (act_id a))" acts] by simp
  show ?thesis
    using backfill_unfold[OF assms, of filteredActivities activities getActivityDetail] sum
    unfolding Let_def acts_def[symmetric]
    by (simp add: log_fetches log_progress)
qed

lemma example_backfill:
  "fetchAllStreamData True False [] five_activities fails_on_3 =
   Some \<lparr> successCount = 4, errorCount = 1,
     log = [SetLoadingStreams True, SetError None, SetStreamProgress 0 5,
            SetStreamProgress 1 5, GetActivityDetail 1, Delay 200,
            SetStreamProgress 2 5, GetActivityDetail 2, Delay 200,
            SetStreamProgress 3 5, GetActivityDetail 3, ConsoleError 3,
            SetStreamProgress 4 5, GetActivityDetail 4, Delay 200,
            SetStreamProgress 5 5, GetActivityDetail 5, Alert False 4 1,
            SetLoadingStreams False, SetStreamProgress 0 0] \<rparr>"
  by code_simp

theorem bulk_backfill_witness:
  "\<exists>st. fetchAllStreamData True False [] five_activities fails_on_3 = Some st \<and>
     successCount st = 4 \<and> errorCount st = 1 \<and>
     filter is_fetch (log st) =
       [GetActivityDetail 1, GetActivityDetail 2, GetActivityDetail 3, GetActivityDetail 4,
        GetActivityDetail 5] \<and>
     filter is_progress (log st) =
       [SetStreamProgress 0 5, SetStreamProgress 1 5, SetStreamProgress 2 5, SetStreamProgress 3 5,
        SetStreamProgress 4 5, SetStreamProgress 5 5, SetStreamProgress 0 0]"
proof -
  have h: "True" "\<not> False" by simp_all
  show ?thesis
    using bulk_backfill[OF h, of "[]" five_activities fails_on_3]
    by (simp add: example_backfill)
qed

text \<open>
  The claim as stated fails for five activities of which the third cannot be fetched. The
  counts are 4 and 1, but the progress is set 7 times, not 5: first to \<open>(0, 5)\<close>, then to
  \<open>(1, 5)\<close> before the first fetch, not after it, and last to \<open>(0, 0)\<close>.
\<close>

theorem progress_reported_before_each_item:
  "map_option (\<lambda>st. (successCount st, errorCount st, length (filter is_progress (log st)),
       take 5 (log st), last (log st)))
     (fetchAllStreamData True False [] five_activities fails_on_3) =
   Some (4, 1, 7,
     [SetLoadingStreams True, SetError None, SetStreamProgress 0 5, SetStreamProgress 1 5,
      GetActivityDetail 1],
     SetStreamProgress 0 0)"
  by code_simp

end
